theory Spec2Isabelle
  imports Main "HOL-Library.Multiset"
begin

section \<open>Static feature extraction of streamlit\_app.py\<close>

text \<open>
  The development embeds the feature extraction core of \<^verbatim>\<open>streamlit_app.py\<close>:
  the tables \<^verbatim>\<open>FEATURES_ORDER\<close>, \<^verbatim>\<open>library_weights\<close> and \<^verbatim>\<open>file_io_funcs\<close>, the
  class \<^verbatim>\<open>FeatureExtractor\<close>, and the functions
  \<^verbatim>\<open>extract_features_and_code_from_file\<close> and \<^verbatim>\<open>predict_for_features\<close>.

  What the program takes from outside is a parameter of the model: reading a file
  (\<^verbatim>\<open>open(...).read()\<close>), the parser \<^verbatim>\<open>ast.parse\<close>, \<^verbatim>\<open>pandas.to_numeric\<close> and the
  trained model's \<^verbatim>\<open>predict\<close>. The behaviour of the Python built-ins the code calls
  (\<^verbatim>\<open>str.splitlines\<close>, \<^verbatim>\<open>str.split\<close>, \<^verbatim>\<open>ast.walk\<close>, \<^verbatim>\<open>ast.NodeVisitor\<close>, \<^verbatim>\<open>set\<close>,
  \<^verbatim>\<open>dict.get\<close>, reading an unbound local variable) is written out.
  The interpreter's recursion limit is not modelled: the visitor recurses as deep as
  the tree is.
\<close>

subsection \<open>Strings\<close>

text \<open>
  A Python \<^verbatim>\<open>str\<close> holding source text is a list of Unicode code points. Identifiers
  and module names are HOL strings.
\<close>

type_synonym py_str = "nat list"

definition py_str :: "string \<Rightarrow> py_str" where
  "py_str s = map of_char s"

subsection \<open>Configuration\<close>

definition FEATURES_ORDER :: "string list" where
  "FEATURES_ORDER = [''LOC'', ''No_of_Functions'', ''No_of_Classes'', ''No_of_Loops'',
                     ''Loop_Nesting_Depth'', ''No_of_Conditional_Blocks'', ''Import_Score'',
                     ''I/O Calls'']"

definition library_weights :: "(string \<times> int) list" where
  "library_weights = [
    (''torch'', 10), (''tensorflow'', 10), (''jax'', 9), (''keras'', 9), (''transformers'', 9), (''lightgbm'', 8),
    (''xgboost'', 8), (''catboost'', 8), (''sklearn'', 7), (''scikit-learn'', 7), (''pandas'', 6), (''numpy'', 6),
    (''dask'', 7), (''polars'', 6), (''matplotlib'', 4), (''seaborn'', 4), (''plotly'', 5), (''bokeh'', 5),
    (''altair'', 4), (''cv2'', 6), (''PIL'', 4), (''imageio'', 3), (''scikit-image'', 4), (''nltk'', 5), (''spacy'', 6),
    (''gensim'', 5), (''requests'', 2), (''httpx'', 2), (''urllib'', 1), (''aiohttp'', 3), (''fastapi'', 4), (''flask'', 3),
    (''django'', 5), (''openpyxl'', 3), (''csv'', 1), (''json'', 1), (''sqlite3'', 2), (''sqlalchemy'', 3), (''h5py'', 4),
    (''pickle'', 2), (''os'', 1), (''sys'', 1), (''shutil'', 1), (''glob'', 1), (''pathlib'', 1), (''math'', 1),
    (''statistics'', 1), (''scipy'', 5), (''datetime'', 1), (''time'', 1), (''calendar'', 1), (''re'', 1),
    (''argparse'', 1), (''typing'', 1), (''logging'', 1), (''threading'', 2), (''multiprocessing'', 3),
    (''concurrent'', 3), (''subprocess'', 3), (''random'', 1), (''uuid'', 1), (''hashlib'', 1), (''base64'', 1),
    (''decimal'', 1), (''boto3'', 6), (''google.cloud'', 6), (''azure'', 6), (''pyspark'', 9), (''IPython'', 2),
    (''jupyter'', 2)]"

text \<open>\<^verbatim>\<open>library_weights.get(lib, 2)\<close>\<close>

definition library_weights_get :: "string \<Rightarrow> int" where
  "library_weights_get lib = (case map_of library_weights lib of None \<Rightarrow> 2 | Some w \<Rightarrow> w)"

definition file_io_funcs :: "string list" where
  "file_io_funcs = [''open'', ''read'', ''write'', ''remove'', ''rename'', ''copy'', ''seek'', ''tell'', ''flush'']"

subsection \<open>Syntax trees\<close>

text \<open>
  The nodes of Python's \<^verbatim>\<open>ast\<close> module, as far as the program tells them apart. Each
  constructor is a node class the code tests with \<^verbatim>\<open>isinstance\<close> or dispatches on, with
  the fields the code reads (\<^verbatim>\<open>Import.names\<close> as the list of the aliases' \<^verbatim>\<open>name\<close>,
  \<^verbatim>\<open>ImportFrom.module\<close>, \<^verbatim>\<open>Call.func\<close>, \<^verbatim>\<open>Name.id\<close>, \<^verbatim>\<open>Attribute.attr\<close>) and its child
  nodes in field order. Every other class (\<^verbatim>\<open>Module\<close>, \<^verbatim>\<open>Expr\<close>, \<^verbatim>\<open>Constant\<close>, \<^verbatim>\<open>alias\<close>,
  \<^verbatim>\<open>Load\<close>, \<^verbatim>\<open>Store\<close>, \<^verbatim>\<open>AsyncFor\<close>, \<^verbatim>\<open>Lambda\<close>, \<^verbatim>\<open>IfExp\<close>, ...) is \<open>Other\<close> with its child
  nodes. \<open>If_stmt\<close> is the class \<^verbatim>\<open>ast.If\<close>.
\<close>

datatype py_ast =
    FunctionDef "py_ast list"
  | ClassDef "py_ast list"
  | For "py_ast list"
  | While "py_ast list"
  | If_stmt "py_ast list"
  | Import "string list"
  | ImportFrom "string option" "string list"
  | Call py_ast "py_ast list"
  | Name string
  | Attribute py_ast string
  | Other "py_ast list"

text \<open>
  \<^verbatim>\<open>ast.iter_child_nodes\<close>: the direct child nodes. An import statement has one
  \<^verbatim>\<open>alias\<close> node for each name, a \<^verbatim>\<open>Name\<close> or \<^verbatim>\<open>Attribute\<close> has its expression context
  (\<^verbatim>\<open>Load\<close>, \<^verbatim>\<open>Store\<close> or \<^verbatim>\<open>Del\<close>) as a child.
\<close>

fun iter_child_nodes :: "py_ast \<Rightarrow> py_ast list" where
  "iter_child_nodes (FunctionDef cs) = cs"
| "iter_child_nodes (ClassDef cs) = cs"
| "iter_child_nodes (For cs) = cs"
| "iter_child_nodes (While cs) = cs"
| "iter_child_nodes (If_stmt cs) = cs"
| "iter_child_nodes (Import names) = map (\<lambda>_. Other []) names"
| "iter_child_nodes (ImportFrom module names) = map (\<lambda>_. Other []) names"
| "iter_child_nodes (Call func args) = func # args"
| "iter_child_nodes (Name ident) = [Other []]"
| "iter_child_nodes (Attribute val attr) = [val, Other []]"
| "iter_child_nodes (Other cs) = cs"

text \<open>All nodes of a tree, the root first (depth first, in pre-order).\<close>

fun subtree :: "py_ast \<Rightarrow> py_ast list" where
  "subtree (FunctionDef cs) = FunctionDef cs # concat (map subtree cs)"
| "subtree (ClassDef cs) = ClassDef cs # concat (map subtree cs)"
| "subtree (For cs) = For cs # concat (map subtree cs)"
| "subtree (While cs) = While cs # concat (map subtree cs)"
| "subtree (If_stmt cs) = If_stmt cs # concat (map subtree cs)"
| "subtree (Import names) = Import names # map (\<lambda>_. Other []) names"
| "subtree (ImportFrom module names) = ImportFrom module names # map (\<lambda>_. Other []) names"
| "subtree (Call func args) = Call func args # subtree func @ concat (map subtree args)"
| "subtree (Name ident) = [Name ident, Other []]"
| "subtree (Attribute val attr) = Attribute val attr # subtree val @ [Other []]"
| "subtree (Other cs) = Other cs # concat (map subtree cs)"

lemma subtree_children: "subtree node = node # concat (map subtree (iter_child_nodes node))"
  by (cases node) (simp_all add: comp_def)

lemma subtree_nonempty: "subtree node \<noteq> []"
  by (subst subtree_children) simp

lemma length_subtree:
  "length (subtree node) = Suc (sum_list (map (length \<circ> subtree) (iter_child_nodes node)))"
  by (subst subtree_children) (simp add: length_concat comp_def)

lemma children_smaller:
  "c \<in> set (iter_child_nodes node) \<Longrightarrow> length (subtree c) < length (subtree node)"
proof -
  assume c: "c \<in> set (iter_child_nodes node)"
  have "length (subtree c) \<le> sum_list (map (length \<circ> subtree) (iter_child_nodes node))"
    using c by (simp add: member_le_sum_list)
  then show ?thesis
    by (simp add: length_subtree [of node])
qed

text \<open>
  \<^verbatim>\<open>ast.walk\<close>: a queue that starts with the root; the first node is taken off, its
  children are appended, and the node is yielded, until the queue is empty.
\<close>

function walk_queue :: "py_ast list \<Rightarrow> py_ast list" where
  "walk_queue [] = []"
| "walk_queue (node # todo) = node # walk_queue (todo @ iter_child_nodes node)"
  by pat_completeness auto
termination
proof (relation "measure (\<lambda>todo. sum_list (map (length \<circ> subtree) todo))")
  show "wf (measure (\<lambda>todo. sum_list (map (length \<circ> subtree) todo)))" by simp
next
  fix node :: py_ast and todo :: "py_ast list"
  show "(todo @ iter_child_nodes node, node # todo)
      \<in> measure (\<lambda>todo. sum_list (map (length \<circ> subtree) todo))"
    by (simp add: length_subtree [of node])
qed

definition ast_walk :: "py_ast \<Rightarrow> py_ast list" where
  "ast_walk tree = walk_queue [tree]"

subsection \<open>The class FeatureExtractor\<close>

record FeatureExtractor =
  max_loop_depth :: int
  current_depth :: int
  file_io_calls :: int

text \<open>\<^verbatim>\<open>__init__\<close>\<close>

definition FeatureExtractor_init :: FeatureExtractor where
  "FeatureExtractor_init = \<lparr>max_loop_depth = 0, current_depth = 0, file_io_calls = 0\<rparr>"

text \<open>
  The first statements of \<^verbatim>\<open>visit_For\<close> and \<^verbatim>\<open>visit_While\<close>, before the call of
  \<^verbatim>\<open>generic_visit\<close>, and the last one, after it.
\<close>

definition enter_loop :: "FeatureExtractor \<Rightarrow> FeatureExtractor" where
  "enter_loop self =
     (let self = self\<lparr>current_depth := current_depth self + 1\<rparr>
      in self\<lparr>max_loop_depth := max (max_loop_depth self) (current_depth self)\<rparr>)"

definition leave_loop :: "FeatureExtractor \<Rightarrow> FeatureExtractor" where
  "leave_loop self = self\<lparr>current_depth := current_depth self - 1\<rparr>"

text \<open>
  The statements of \<^verbatim>\<open>visit_Call\<close> before the call of \<^verbatim>\<open>generic_visit\<close>:
  \<open>func_name\<close> is \<^verbatim>\<open>None\<close> unless \<^verbatim>\<open>node.func\<close> is a \<^verbatim>\<open>Name\<close> or an \<^verbatim>\<open>Attribute\<close>, and
  \<^verbatim>\<open>None in file_io_funcs\<close> is false.
\<close>

fun func_name :: "py_ast \<Rightarrow> string option" where
  "func_name (Name ident) = Some ident"
| "func_name (Attribute val attr) = Some attr"
| "func_name _ = None"

definition count_call :: "py_ast \<Rightarrow> FeatureExtractor \<Rightarrow> FeatureExtractor" where
  "count_call func self =
     (case func_name func of
        None \<Rightarrow> self
      | Some name \<Rightarrow>
          if name \<in> set file_io_funcs then self\<lparr>file_io_calls := file_io_calls self + 1\<rparr>
          else self)"

text \<open>
  \<^verbatim>\<open>NodeVisitor.visit\<close> calls the method \<^verbatim>\<open>visit_\<close>\<open>C\<close> for a node of class \<open>C\<close> when the
  visitor has one (here \<^verbatim>\<open>visit_For\<close>, \<^verbatim>\<open>visit_While\<close>, \<^verbatim>\<open>visit_Call\<close>) and
  \<^verbatim>\<open>generic_visit\<close> otherwise; \<^verbatim>\<open>generic_visit\<close> visits the child nodes in order.
\<close>

function visit :: "py_ast \<Rightarrow> FeatureExtractor \<Rightarrow> FeatureExtractor"
  and generic_visit :: "py_ast \<Rightarrow> FeatureExtractor \<Rightarrow> FeatureExtractor" where
  "visit node self =
     (case node of
        For _ \<Rightarrow> leave_loop (generic_visit node (enter_loop self))
      | While _ \<Rightarrow> leave_loop (generic_visit node (enter_loop self))
      | Call func _ \<Rightarrow> generic_visit node (count_call func self)
      | _ \<Rightarrow> generic_visit node self)"
| "generic_visit node self = fold visit (iter_child_nodes node) self"
  by pat_completeness auto
termination
  by (relation "measure (\<lambda>x. case x of
          Inl (node, _) \<Rightarrow> 2 * length (subtree node) + 1
        | Inr (node, _) \<Rightarrow> 2 * length (subtree node))")
     (auto dest: children_smaller)

subsection \<open>Built-ins of the string type\<close>

text \<open>
  \<^verbatim>\<open>str.splitlines\<close> ends a line at each of the code points below (line feed, vertical
  tab, form feed, carriage return, the file, group and record separators, next line,
  line separator, paragraph separator). A carriage return directly followed by a line
  feed ends one line, not two. No empty last line is added after a final line break.
  The first argument of \<open>splitlines_from\<close> is the part of the current line already read.
\<close>

definition is_linebreak :: "nat \<Rightarrow> bool" where
  "is_linebreak c = (c \<in> {10, 11, 12, 13, 28, 29, 30, 133, 8232, 8233})"

fun splitlines_from :: "py_str \<Rightarrow> py_str \<Rightarrow> py_str list" where
  "splitlines_from line [] = (if line = [] then [] else [line])"
| "splitlines_from line (c # cs) =
     (if is_linebreak c then
        line # (case cs of
                  [] \<Rightarrow> []
                | d # ds \<Rightarrow> if c = 13 \<and> d = 10 then splitlines_from [] ds
                           else splitlines_from [] cs)
      else splitlines_from (line @ [c]) cs)"

definition splitlines :: "py_str \<Rightarrow> py_str list" where
  "splitlines s = splitlines_from [] s"

text \<open>\<^verbatim>\<open>name.split('.')[0]\<close>: the text before the first dot, all of it when there is none.\<close>

definition split_first :: "string \<Rightarrow> string" where
  "split_first name = takeWhile (\<lambda>c. c \<noteq> CHR ''.'') name"

subsection \<open>The function extract\_features\_and\_code\_from\_file\<close>

text \<open>The exception the body can raise outside its two \<^verbatim>\<open>try\<close> blocks.\<close>

datatype py_exception = UnboundLocalError

text \<open>What the program shows with \<^verbatim>\<open>st.error\<close>. The first two name the file.\<close>

datatype report =
    Could_not_read_file string
  | Could_not_parse_file string
  | Non_numeric_values_found
  | Error_during_prediction_step

text \<open>A dictionary literal with string keys, in the order it is written.\<close>

type_synonym 'v py_dict = "(string \<times> 'v) list"

text \<open>\<^verbatim>\<open>sum(isinstance(node, C) for node in nodes)\<close>\<close>

definition sum_isinstance :: "(py_ast \<Rightarrow> bool) \<Rightarrow> py_ast list \<Rightarrow> int" where
  "sum_isinstance C nodes = sum_list (map (\<lambda>node. if C node then 1 else 0) nodes)"

fun is_FunctionDef :: "py_ast \<Rightarrow> bool" where
  "is_FunctionDef (FunctionDef _) = True"
| "is_FunctionDef _ = False"

fun is_ClassDef :: "py_ast \<Rightarrow> bool" where
  "is_ClassDef (ClassDef _) = True"
| "is_ClassDef _ = False"

fun is_For_or_While :: "py_ast \<Rightarrow> bool" where
  "is_For_or_While (For _) = True"
| "is_For_or_While (While _) = True"
| "is_For_or_While _ = False"

fun is_If :: "py_ast \<Rightarrow> bool" where
  "is_If (If_stmt _) = True"
| "is_If _ = False"

text \<open>
  The local variables of the import loop. \<open>lib\<close> is \<open>None\<close> as long as no assignment
  to it has run: reading it then raises \<^verbatim>\<open>UnboundLocalError\<close>.
\<close>

record import_vars =
  num_imports :: int
  imported_libs :: "string set"
  lib :: "string option"

definition import_vars_init :: import_vars where
  "import_vars_init = \<lparr>num_imports = 0, imported_libs = {}, lib = None\<rparr>"

text \<open>The body of \<^verbatim>\<open>for name in node.names\<close> in the \<^verbatim>\<open>ast.Import\<close> branch.\<close>

definition import_name :: "string \<Rightarrow> import_vars \<Rightarrow> import_vars" where
  "import_name name vars =
     (let l = split_first name;
          libs = (if l = [] then imported_libs vars else insert l (imported_libs vars))
      in \<lparr>num_imports = num_imports vars + 1, imported_libs = libs, lib = Some l\<rparr>)"

text \<open>
  The \<^verbatim>\<open>ast.ImportFrom\<close> branch: \<open>lib\<close> is assigned only when \<^verbatim>\<open>node.module\<close> is true
  (neither \<^verbatim>\<open>None\<close> nor empty); the next statement reads \<open>lib\<close> in either case.
\<close>

definition import_from :: "string option \<Rightarrow> import_vars \<Rightarrow> py_exception + import_vars" where
  "import_from module vars =
     (let vars = (case module of
                    None \<Rightarrow> vars
                  | Some m \<Rightarrow> if m = [] then vars else vars\<lparr>lib := Some (split_first m)\<rparr>)
      in case lib vars of
           None \<Rightarrow> Inl UnboundLocalError
         | Some l \<Rightarrow>
             Inr (vars\<lparr>imported_libs := (if l = [] then imported_libs vars
                                         else insert l (imported_libs vars)),
                       num_imports := num_imports vars + 1\<rparr>))"

fun import_node :: "py_ast \<Rightarrow> import_vars \<Rightarrow> py_exception + import_vars" where
  "import_node (Import names) vars = Inr (fold import_name names vars)"
| "import_node (ImportFrom module names) vars = import_from module vars"
| "import_node _ vars = Inr vars"

text \<open>\<^verbatim>\<open>for node in ast.walk(tree)\<close>: an exception ends the loop.\<close>

fun import_loop :: "py_ast list \<Rightarrow> import_vars \<Rightarrow> py_exception + import_vars" where
  "import_loop [] vars = Inr vars"
| "import_loop (node # nodes) vars =
     (case import_node node vars of
        Inl e \<Rightarrow> Inl e
      | Inr vars' \<Rightarrow> import_loop nodes vars')"

text \<open>
  The statements after the two \<^verbatim>\<open>try\<close> blocks, from \<^verbatim>\<open># Calculate features...\<close> to the
  dictionary \<^verbatim>\<open>features_dict\<close>.
\<close>

definition calculate_features :: "py_str \<Rightarrow> py_ast \<Rightarrow> py_exception + int py_dict" where
  "calculate_features source_code tree =
     (let num_lines = int (length (splitlines source_code));
          num_functions = sum_isinstance is_FunctionDef (ast_walk tree);
          num_classes = sum_isinstance is_ClassDef (ast_walk tree);
          num_loops = sum_isinstance is_For_or_While (ast_walk tree);
          num_conditional_blocks = sum_isinstance is_If (ast_walk tree)
      in case import_loop (ast_walk tree) import_vars_init of
           Inl e \<Rightarrow> Inl e
         | Inr vars \<Rightarrow>
             (let weighted_import_score = sum library_weights_get (imported_libs vars);
                  extractor = visit tree FeatureExtractor_init
              in Inr [(''LOC'', num_lines), (''No_of_Functions'', num_functions),
                      (''No_of_Classes'', num_classes), (''No_of_Loops'', num_loops),
                      (''Loop_Nesting_Depth'', max_loop_depth extractor),
                      (''No_of_Conditional_Blocks'', num_conditional_blocks),
                      (''Import_Score'', weighted_import_score),
                      (''I/O Calls'', file_io_calls extractor)]))"

text \<open>
  The whole function. \<open>read_file\<close> is \<^verbatim>\<open>open(file_path, ...).read()\<close> and \<open>ast_parse\<close> is
  \<^verbatim>\<open>ast.parse\<close>, each \<open>None\<close> when it raises. The result is the list of \<^verbatim>\<open>st.error\<close>
  messages, then the returned pair (\<open>None\<close> is Python's \<^verbatim>\<open>None\<close>); or the exception
  that leaves the function. Output of \<^verbatim>\<open>print\<close> is left out.
\<close>

definition extract_features_and_code_from_file ::
  "(string \<Rightarrow> py_str option) \<Rightarrow> (py_str \<Rightarrow> py_ast option) \<Rightarrow> string
     \<Rightarrow> py_exception + (report list \<times> int py_dict option \<times> py_str option)" where
  "extract_features_and_code_from_file read_file ast_parse file_path =
     (case read_file file_path of
        None \<Rightarrow> Inr ([Could_not_read_file file_path], None, None)
      | Some source_code \<Rightarrow>
          (case ast_parse source_code of
             None \<Rightarrow> Inr ([Could_not_parse_file file_path], None, Some source_code)
           | Some tree \<Rightarrow>
               (case calculate_features source_code tree of
                  Inl e \<Rightarrow> Inl e
                | Inr features_dict \<Rightarrow> Inr ([], Some features_dict, Some source_code))))"

subsection \<open>The function predict\_for\_features\<close>

text \<open>
  A data frame is its list of rows; a cell is \<open>None\<close> when it is null (NaN).
  \<^verbatim>\<open>pd.DataFrame(d, columns=cols)\<close> for a dictionary \<open>d\<close> of one-element lists: the frame
  has the columns \<open>cols\<close> in that order and one row, a column that is no key of \<open>d\<close>
  being null; when no column is a key of \<open>d\<close> the frame has no row. The keys of a
  dictionary are distinct.
\<close>

type_synonym 'n data_frame = "'n option list list"

definition DataFrame :: "'n option py_dict \<Rightarrow> string list \<Rightarrow> 'n data_frame" where
  "DataFrame d cols =
     (if list_ex (\<lambda>c. c \<in> fst ` set d) cols
      then [map (\<lambda>c. case map_of d c of None \<Rightarrow> None | Some cell \<Rightarrow> cell) cols]
      else [])"

text \<open>\<^verbatim>\<open>df.isnull().values.any()\<close>\<close>

definition isnull_any :: "'n data_frame \<Rightarrow> bool" where
  "isnull_any df = list_ex (list_ex (\<lambda>cell. cell = None)) df"

text \<open>
  What a call of \<^verbatim>\<open>predict_for_features\<close> does: the value it returns (\<open>None\<close> is Python's
  \<^verbatim>\<open>None\<close>), the \<^verbatim>\<open>st.error\<close> messages it shows, and the arguments of its calls of
  \<^verbatim>\<open>model.predict\<close>.
\<close>

record ('n, 'p) prediction_run =
  returned :: "'p option"
  st_errors :: "report list"
  model_calls :: "'n data_frame list"

text \<open>
  \<open>to_numeric\<close> is \<^verbatim>\<open>pd.to_numeric(value, errors='coerce')\<close>: the number, or \<open>None\<close> (NaN)
  for a value that cannot be read as a number. \<open>model_predict\<close> is \<^verbatim>\<open>model.predict\<close>,
  \<open>Inl\<close> when it raises. \<^verbatim>\<open>prediction[0]\<close> raises on an empty result; both exceptions
  are caught by the \<^verbatim>\<open>except\<close> clause.
\<close>

definition predict_for_features ::
  "('v \<Rightarrow> 'n option) \<Rightarrow> ('n data_frame \<Rightarrow> 'e + 'p list) \<Rightarrow> 'v py_dict \<Rightarrow> ('n, 'p) prediction_run" where
  "predict_for_features to_numeric model_predict features_dict =
     (let input_features = map (\<lambda>(key, value). (key, to_numeric value)) features_dict;
          input_df = DataFrame input_features FEATURES_ORDER
      in if isnull_any input_df then
           \<lparr>returned = None, st_errors = [Non_numeric_values_found], model_calls = []\<rparr>
         else
           (case model_predict input_df of
              Inl e \<Rightarrow>
                \<lparr>returned = None, st_errors = [Error_during_prediction_step],
                 model_calls = [input_df]\<rparr>
            | Inr prediction \<Rightarrow>
                (case prediction of
                   [] \<Rightarrow>
                     \<lparr>returned = None, st_errors = [Error_during_prediction_step],
                      model_calls = [input_df]\<rparr>
                 | p # _ \<Rightarrow> \<lparr>returned = Some p, st_errors = [], model_calls = [input_df]\<rparr>)))"

subsection \<open>Notions of the specification\<close>

text \<open>
  A call expression counts as a file I/O call when its callee's simple name is one of
  nine names: the identifier for a call of a bare name, the accessed member's name for
  an attribute call, whatever the receiver.
\<close>

definition io_names :: "string set" where
  "io_names = {''open'', ''read'', ''write'', ''remove'', ''rename'', ''copy'', ''seek'', ''tell'',
               ''flush''}"

fun is_io_call :: "py_ast \<Rightarrow> bool" where
  "is_io_call (Call (Name ident) args) = (ident \<in> io_names)"
| "is_io_call (Call (Attribute val attr) args) = (attr \<in> io_names)"
| "is_io_call _ = False"

text \<open>
  The top-level name of an import statement: for a plain import the first dotted segment
  of each imported path, for a from-import the first dotted segment of the module
  imported from. Empty and absent names are skipped.
\<close>

fun imported_names :: "py_ast \<Rightarrow> string list" where
  "imported_names (Import names) = filter (\<lambda>name. name \<noteq> []) (map split_first names)"
| "imported_names (ImportFrom (Some m) names) = filter (\<lambda>name. name \<noteq> []) [split_first m]"
| "imported_names _ = []"

definition top_level_names :: "py_ast \<Rightarrow> string set" where
  "top_level_names tree = set (concat (map imported_names (subtree tree)))"

text \<open>The dotted paths the import statements of a tree name.\<close>

fun import_module_names :: "py_ast \<Rightarrow> string list" where
  "import_module_names (Import names) = names"
| "import_module_names (ImportFrom (Some m) names) = [m]"
| "import_module_names _ = []"

definition module_names :: "py_ast \<Rightarrow> string list" where
  "module_names tree = concat (map import_module_names (subtree tree))"

text \<open>
  An import statement whose top-level name is \<open>key\<close>: a plain import one of whose paths
  has \<open>key\<close> as its first dotted segment, or a from-import whose module has.
\<close>

fun imports_top_level :: "string \<Rightarrow> py_ast \<Rightarrow> bool" where
  "imports_top_level key (Import names) = list_ex (\<lambda>name. split_first name = key) names"
| "imports_top_level key (ImportFrom (Some m) names) = (split_first m = key)"
| "imports_top_level key _ = False"

text \<open>
  The line terminators of a text. A physical line ends with a line feed, with a carriage
  return, or with a carriage return directly followed by a line feed, which is one
  terminator.
\<close>

definition is_line_terminator :: "nat \<Rightarrow> bool" where
  "is_line_terminator c = (c = 10 \<or> c = 13)"

definition line_terminators :: "py_str \<Rightarrow> int" where
  "line_terminators s =
     int (length (filter is_line_terminator s)) -
     int (length (filter (\<lambda>(c, d). c = 13 \<and> d = 10) (zip s (tl s))))"

subsection \<open>Notions used in the proofs\<close>

text \<open>
  What a visit of the nodes \<open>nodes\<close> does to the visitor: the current depth is restored,
  the maximal depth does not fall and rises at most to the current depth plus the
  number of loops among the nodes, and the I/O calls among the nodes are counted.
\<close>

definition visit_ok :: "py_ast list \<Rightarrow> FeatureExtractor \<Rightarrow> FeatureExtractor \<Rightarrow> bool" where
  "visit_ok nodes self self' \<longleftrightarrow>
     current_depth self' = current_depth self \<and>
     max_loop_depth self \<le> max_loop_depth self' \<and>
     max_loop_depth self'
       \<le> max (max_loop_depth self) (current_depth self + sum_isinstance is_For_or_While nodes) \<and>
     file_io_calls self' = file_io_calls self + sum_isinstance is_io_call nodes"

text \<open>
  The invariant of the import loop: once \<open>lib\<close> is bound, it is empty or already in the
  set of imported libraries.
\<close>

definition lib_added :: "import_vars \<Rightarrow> bool" where
  "lib_added vars = (case lib vars of None \<Rightarrow> True | Some l \<Rightarrow> l = [] \<or> l \<in> imported_libs vars)"

text \<open>
  The line breaks \<^verbatim>\<open>str.splitlines\<close> finds in a text, a carriage return directly followed by
  a line feed being one; and the characters at which it breaks a line although they are no
  line terminators: vertical tab, form feed, the file, group and record separators, next
  line, line separator and paragraph separator.
\<close>

definition line_breaks :: "py_str \<Rightarrow> int" where
  "line_breaks s =
     int (length (filter is_linebreak s)) -
     int (length (filter (\<lambda>(c, d). c = 13 \<and> d = 10) (zip s (tl s))))"

definition is_other_break :: "nat \<Rightarrow> bool" where
  "is_other_break c = (c \<in> {11, 12, 28, 29, 30, 133, 8232, 8233})"

text \<open>A node that is no from-import, or a from-import whose module is present and not empty.\<close>

fun names_module :: "py_ast \<Rightarrow> bool" where
  "names_module (ImportFrom None names) = False"
| "names_module (ImportFrom (Some m) names) = (m \<noteq> [])"
| "names_module _ = True"

subsection \<open>Sample programs\<close>

text \<open>
  A source text and the tree Python's parser gives for it: a \<^verbatim>\<open>Module\<close> whose body is a
  \<^verbatim>\<open>For\<close> with target \<^verbatim>\<open>i\<close>, iterator \<^verbatim>\<open>range(3)\<close> and, as its body, a \<^verbatim>\<open>For\<close> with target
  \<^verbatim>\<open>j\<close>, iterator \<^verbatim>\<open>range(3)\<close> and the expression statement \<^verbatim>\<open>open('f')\<close>.
\<close>

definition nested_loops_source :: py_str where
  "nested_loops_source =
     py_str ''for i in range(3):\<newline>    for j in range(3):\<newline>        open('f')\<newline>''"

definition nested_loops_tree :: py_ast where
  "nested_loops_tree =
     Other [For [Name ''i'', Call (Name ''range'') [Other []],
                 For [Name ''j'', Call (Name ''range'') [Other []],
                      Other [Call (Name ''open'') [Other []]]]]]"

text \<open>
  Two plain imports of submodules of one library, and one import of a library that the
  weight table does not list, each with the tree Python's parser gives.
\<close>

definition sklearn_source :: py_str where
  "sklearn_source = py_str ''import sklearn.svm\<newline>import sklearn.tree\<newline>''"

definition sklearn_tree :: py_ast where
  "sklearn_tree = Other [Import [''sklearn.svm''], Import [''sklearn.tree'']]"



text \<open>Two imports on two lines, without a line terminator at the end.\<close>

definition two_imports_source :: py_str where
  "two_imports_source = py_str ''import os\<newline>import sys''"

definition two_imports_tree :: py_ast where
  "two_imports_tree = Other [Import [''os''], Import [''sys'']]"

text \<open>
  Two assignments with a form feed on a line of its own between them, without a line
  terminator at the end: \<^verbatim>\<open>"a = 1\n\x0c\nb = 2"\<close>. Each \<^verbatim>\<open>Assign\<close> has its target and its
  constant as children.
\<close>

definition form_feed_source :: py_str where
  "form_feed_source = py_str ''a = 1\<newline>'' @ [12] @ py_str ''\<newline>b = 2''"

definition form_feed_tree :: py_ast where
  "form_feed_tree = Other [Other [Name ''a'', Other []], Other [Name ''b'', Other []]]"

text \<open>
  The statements \<^verbatim>\<open>import google.cloud.storage\<close> and \<^verbatim>\<open>from google.cloud import storage\<close>,
  each a file of its own, with the trees Python's parser gives.
\<close>

definition google_source :: py_str where
  "google_source = py_str ''import google.cloud.storage\<newline>''"

definition google_tree :: py_ast where
  "google_tree = Other [Import [''google.cloud.storage'']]"

definition from_google_source :: py_str where
  "from_google_source = py_str ''from google.cloud import storage\<newline>''"

definition from_google_tree :: py_ast where
  "from_google_tree = Other [ImportFrom (Some ''google.cloud'') [''storage'']]"

text \<open>
  Two programs with a from-import whose module is absent, each with the tree Python's
  parser gives: \<^verbatim>\<open>from . import x\<close> alone, and a function that imports \<^verbatim>\<open>json\<close> followed by
  \<^verbatim>\<open>from . import helpers\<close> (the \<^verbatim>\<open>FunctionDef\<close> has its \<^verbatim>\<open>arguments\<close> node and the
  import as children).
\<close>

definition relative_import_source :: py_str where
  "relative_import_source = py_str ''from . import x\<newline>''"

definition relative_import_tree :: py_ast where
  "relative_import_tree = Other [ImportFrom None [''x'']]"

definition late_import_source :: py_str where
  "late_import_source =
     py_str ''def load():\<newline>    import json\<newline>from . import helpers\<newline>''"

definition late_import_tree :: py_ast where
  "late_import_tree =
     Other [FunctionDef [Other [], Import [''json'']], ImportFrom None [''helpers'']]"

subsection \<open>Sample inputs of the prediction adapter\<close>

text \<open>
  Feature values that are integers or strings, a coercion that reads the integers and
  gives NaN for a string (the strings used here are no numerals), a model that always
  predicts 42, and two feature records: one numeric, one with a string as loop count.
\<close>

datatype py_value = PyInt int | PyStr string

fun numeric_or_nan :: "py_value \<Rightarrow> int option" where
  "numeric_or_nan (PyInt i) = Some i"
| "numeric_or_nan (PyStr s) = None"

definition constant_model :: "int data_frame \<Rightarrow> unit + int list" where
  "constant_model df = Inr [42]"

definition numeric_record :: "py_value py_dict" where
  "numeric_record =
     [(''LOC'', PyInt 3), (''No_of_Functions'', PyInt 0), (''No_of_Classes'', PyInt 0),
      (''No_of_Loops'', PyInt 2), (''Loop_Nesting_Depth'', PyInt 2),
      (''No_of_Conditional_Blocks'', PyInt 0), (''Import_Score'', PyInt 0),
      (''I/O Calls'', PyInt 1)]"

definition text_record :: "py_value py_dict" where
  "text_record =
     [(''LOC'', PyInt 3), (''No_of_Functions'', PyInt 0), (''No_of_Classes'', PyInt 0),
      (''No_of_Loops'', PyStr ''two''), (''Loop_Nesting_Depth'', PyInt 2),
      (''No_of_Conditional_Blocks'', PyInt 0), (''Import_Score'', PyInt 0),
      (''I/O Calls'', PyInt 1)]"

section \<open>Properties\<close>

subsection \<open>Traversals\<close>

declare visit.simps [simp del] generic_visit.simps [simp del]

lemma visit_For [simp]: "visit (For cs) self = leave_loop (fold visit cs (enter_loop self))"
  by (subst visit.simps) (simp add: generic_visit.simps)

lemma visit_While [simp]: "visit (While cs) self = leave_loop (fold visit cs (enter_loop self))"
  by (subst visit.simps) (simp add: generic_visit.simps)

lemma visit_Call [simp]:
  "visit (Call func args) self = fold visit args (visit func (count_call func self))"
  by (subst visit.simps) (simp add: generic_visit.simps)

lemma visit_other [simp]:
  "visit (FunctionDef cs) self = fold visit cs self"
  "visit (ClassDef cs) self = fold visit cs self"
  "visit (If_stmt cs) self = fold visit cs self"
  "visit (Other cs) self = fold visit cs self"
  "visit (Import names) self = fold visit (map (\<lambda>_. Other []) names) self"
  "visit (ImportFrom module names) self = fold visit (map (\<lambda>_. Other []) names) self"
  "visit (Name ident) self = self"
  "visit (Attribute val attr) self = visit val self"
  by (subst visit.simps, simp add: generic_visit.simps,
      (subst visit.simps, simp add: generic_visit.simps)?)+

lemma sum_isinstance_simps [simp]:
  "sum_isinstance C [] = 0"
  "sum_isinstance C (node # nodes) = (if C node then 1 else 0) + sum_isinstance C nodes"
  "sum_isinstance C (xs @ ys) = sum_isinstance C xs + sum_isinstance C ys"
  by (simp_all add: sum_isinstance_def)

lemma sum_isinstance_nonneg: "0 \<le> sum_isinstance C nodes"
  by (induction nodes) simp_all

lemma sum_isinstance_mset:
  "mset xs = mset ys \<Longrightarrow> sum_isinstance C xs = sum_isinstance C ys"
proof -
  assume "mset xs = mset ys"
  then have "mset (map (\<lambda>node. if C node then 1 else (0::int)) xs) =
      mset (map (\<lambda>node. if C node then 1 else 0) ys)"
    by simp
  then show ?thesis
    unfolding sum_isinstance_def by (metis sum_mset_sum_list)
qed

lemma sum_isinstance_none:
  "list_all (\<lambda>node. \<not> C node) nodes \<Longrightarrow> sum_isinstance C nodes = 0"
  by (induction nodes) simp_all

lemma mset_walk_queue: "mset (walk_queue todo) = mset (concat (map subtree todo))"
proof (induction todo rule: walk_queue.induct)
  case 1
  show ?case by simp
next
  case (2 node todo)
  have "mset (subtree node) = {#node#} + mset (concat (map subtree (iter_child_nodes node)))"
    by (simp add: subtree_children [of node])
  with 2 show ?case by simp
qed

lemma mset_ast_walk: "mset (ast_walk tree) = mset (subtree tree)"
  unfolding ast_walk_def by (simp only: mset_walk_queue) simp

lemma set_ast_walk: "set (ast_walk tree) = set (subtree tree)"
  using mset_ast_walk by (metis set_mset_mset)

lemma sum_isinstance_walk:
  "sum_isinstance C (ast_walk tree) = sum_isinstance C (subtree tree)"
  by (rule sum_isinstance_mset) (rule mset_ast_walk)

lemma sum_isinstance_subtree:
  "sum_isinstance C (subtree node) =
     (if C node then 1 else 0) + sum_isinstance C (concat (map subtree (iter_child_nodes node)))"
  by (simp add: subtree_children [of node])

lemma fold_visit_ok:
  assumes "\<And>c s. c \<in> set cs \<Longrightarrow> visit_ok (subtree c) s (visit c s)"
  shows "visit_ok (concat (map subtree cs)) self (fold visit cs self)"
  using assms
proof (induction cs arbitrary: self)
  case Nil
  show ?case by (simp add: visit_ok_def)
next
  case (Cons c cs)
  have 1: "visit_ok (subtree c) self (visit c self)"
    using Cons.prems by simp
  have 2: "visit_ok (concat (map subtree cs)) (visit c self) (fold visit cs (visit c self))"
    using Cons.IH Cons.prems by simp
  have "0 \<le> sum_isinstance is_For_or_While (subtree c)"
    "0 \<le> sum_isinstance is_For_or_While (concat (map subtree cs))"
    by (rule sum_isinstance_nonneg)+
  with 1 2 show ?case
    by (simp add: visit_ok_def) linarith
qed

lemma count_call_io:
  "file_io_calls (count_call func self) =
     file_io_calls self + (if is_io_call (Call func args) then 1 else 0)"
  by (cases func) (simp_all add: count_call_def io_names_def file_io_funcs_def)

lemma count_call_depth [simp]:
  "current_depth (count_call func self) = current_depth self"
  "max_loop_depth (count_call func self) = max_loop_depth self"
  by (simp_all add: count_call_def split: option.split)

lemma visit_ok_node:
  assumes kids: "\<And>s. visit_ok below s (kids s)"
  shows "visit_ok (node # below) self
     (case node of
        For _ \<Rightarrow> leave_loop (kids (enter_loop self))
      | While _ \<Rightarrow> leave_loop (kids (enter_loop self))
      | Call func _ \<Rightarrow> kids (count_call func self)
      | _ \<Rightarrow> kids self)"
proof -
  have nonneg: "0 \<le> sum_isinstance is_For_or_While below"
    by (rule sum_isinstance_nonneg)
  show ?thesis
  proof (cases node)
    case (For cs)
    with kids [of "enter_loop self"] nonneg show ?thesis
      by (simp add: visit_ok_def enter_loop_def leave_loop_def Let_def) linarith
  next
    case (While cs)
    with kids [of "enter_loop self"] nonneg show ?thesis
      by (simp add: visit_ok_def enter_loop_def leave_loop_def Let_def) linarith
  next
    case (Call func args)
    with kids [of "count_call func self"] show ?thesis
      by (simp add: visit_ok_def count_call_io [of func self args])
  qed (use kids [of self] in \<open>simp_all add: visit_ok_def\<close>)
qed

lemma visit_visit_ok: "visit_ok (subtree node) self (visit node self)"
proof (induction "length (subtree node)" arbitrary: node self rule: less_induct)
  case less
  have "\<And>c s. c \<in> set (iter_child_nodes node) \<Longrightarrow> visit_ok (subtree c) s (visit c s)"
    using less children_smaller by blast
  then have "\<And>s. visit_ok (concat (map subtree (iter_child_nodes node))) s
      (fold visit (iter_child_nodes node) s)"
    by (rule fold_visit_ok)
  then have "visit_ok (node # concat (map subtree (iter_child_nodes node))) self
     (case node of
        For _ \<Rightarrow> leave_loop (fold visit (iter_child_nodes node) (enter_loop self))
      | While _ \<Rightarrow> leave_loop (fold visit (iter_child_nodes node) (enter_loop self))
      | Call func _ \<Rightarrow> fold visit (iter_child_nodes node) (count_call func self)
      | _ \<Rightarrow> fold visit (iter_child_nodes node) self)"
    by (rule visit_ok_node)
  moreover have "visit node self =
     (case node of
        For _ \<Rightarrow> leave_loop (fold visit (iter_child_nodes node) (enter_loop self))
      | While _ \<Rightarrow> leave_loop (fold visit (iter_child_nodes node) (enter_loop self))
      | Call func _ \<Rightarrow> fold visit (iter_child_nodes node) (count_call func self)
      | _ \<Rightarrow> fold visit (iter_child_nodes node) self)"
    by (subst visit.simps) (simp only: generic_visit.simps)
  ultimately show ?case
    by (simp only: subtree_children [of node])
qed

lemma max_loop_depth_bounds:
  "0 \<le> max_loop_depth (visit tree FeatureExtractor_init)"
  "max_loop_depth (visit tree FeatureExtractor_init)
     \<le> sum_isinstance is_For_or_While (subtree tree)"
  "file_io_calls (visit tree FeatureExtractor_init) = sum_isinstance is_io_call (subtree tree)"
  using visit_visit_ok [of tree FeatureExtractor_init]
    sum_isinstance_nonneg [of is_For_or_While "subtree tree"]
  by (simp_all add: visit_ok_def FeatureExtractor_init_def)

subsection \<open>The shape of the result\<close>

lemma extract_unreadable:
  "read_file file_path = None \<Longrightarrow>
   extract_features_and_code_from_file read_file ast_parse file_path =
     Inr ([Could_not_read_file file_path], None, None)"
  by (simp add: extract_features_and_code_from_file_def)

lemma extract_unparsable:
  "read_file file_path = Some source \<Longrightarrow> ast_parse source = None \<Longrightarrow>
   extract_features_and_code_from_file read_file ast_parse file_path =
     Inr ([Could_not_parse_file file_path], None, Some source)"
  by (simp add: extract_features_and_code_from_file_def)

lemma extract_none_pair:
  "extract_features_and_code_from_file read_file ast_parse file_path = Inr (reports, None, None)
     \<longleftrightarrow> read_file file_path = None \<and> reports = [Could_not_read_file file_path]"
  by (auto simp: extract_features_and_code_from_file_def split: option.splits sum.splits)

lemma extract_parsed:
  assumes "read_file file_path = Some source" and "ast_parse source = Some tree"
    and "extract_features_and_code_from_file read_file ast_parse file_path =
      Inr (reports, features, code)"
  obtains features_dict where "calculate_features source tree = Inr features_dict"
    and "features = Some features_dict" and "code = Some source" and "reports = []"
  using assms
  by (auto simp: extract_features_and_code_from_file_def split: sum.splits)

lemma calculate_features_Inr:
  assumes "calculate_features source tree = Inr features_dict"
  obtains vars where "import_loop (ast_walk tree) import_vars_init = Inr vars"
    and "features_dict =
        [(''LOC'', int (length (splitlines source))),
         (''No_of_Functions'', sum_isinstance is_FunctionDef (ast_walk tree)),
         (''No_of_Classes'', sum_isinstance is_ClassDef (ast_walk tree)),
         (''No_of_Loops'', sum_isinstance is_For_or_While (ast_walk tree)),
         (''Loop_Nesting_Depth'', max_loop_depth (visit tree FeatureExtractor_init)),
         (''No_of_Conditional_Blocks'', sum_isinstance is_If (ast_walk tree)),
         (''Import_Score'', sum library_weights_get (imported_libs vars)),
         (''I/O Calls'', file_io_calls (visit tree FeatureExtractor_init))]"
  using assms
  by (auto simp: calculate_features_def Let_def split: sum.splits)

subsection \<open>The import loop\<close>

lemma split_first_Nil [simp]: "split_first [] = []"
  by (simp add: split_first_def)

lemma fold_import_name:
  "imported_libs (fold import_name names vars) =
     imported_libs vars \<union> set (filter (\<lambda>name. name \<noteq> []) (map split_first names))"
  by (induction names arbitrary: vars) (auto simp: import_name_def Let_def)

lemma fold_import_name_added:
  "lib_added vars \<Longrightarrow> lib_added (fold import_name names vars)"
proof (induction names arbitrary: vars)
  case Nil
  then show ?case by simp
next
  case (Cons name names)
  have "lib_added (import_name name vars)"
    by (simp add: lib_added_def import_name_def Let_def)
  then show ?case
    using Cons.IH by simp
qed

lemma import_node_libs:
  assumes "import_node node vars = Inr vars'" and "lib_added vars"
  shows "imported_libs vars' = imported_libs vars \<union> set (imported_names node)"
    and "lib_added vars'"
proof -
  show "imported_libs vars' = imported_libs vars \<union> set (imported_names node)"
    using assms
    by (cases node)
      (auto simp: fold_import_name import_from_def lib_added_def Let_def
        split: option.splits if_splits)
  show "lib_added vars'"
  proof (cases node)
    case (Import names)
    with assms show ?thesis
      by (auto simp: fold_import_name_added)
  next
    case (ImportFrom module names)
    with assms show ?thesis
      by (auto simp: import_from_def lib_added_def Let_def split: option.splits if_splits)
  qed (use assms in auto)
qed

lemma import_loop_libs:
  assumes "import_loop nodes vars = Inr vars'" and "lib_added vars"
  shows "imported_libs vars' = imported_libs vars \<union> set (concat (map imported_names nodes))"
  using assms
proof (induction nodes arbitrary: vars)
  case Nil
  then show ?case by simp
next
  case (Cons node nodes)
  from Cons.prems(1) obtain vars1 where
    node: "import_node node vars = Inr vars1" and rest: "import_loop nodes vars1 = Inr vars'"
    by (auto split: sum.splits)
  from import_node_libs [OF node Cons.prems(2)] Cons.IH [OF rest]
  show ?case by auto
qed

lemma imported_libs_walk:
  assumes "import_loop (ast_walk tree) import_vars_init = Inr vars"
  shows "imported_libs vars = top_level_names tree"
proof -
  have "lib_added import_vars_init"
    by (simp add: lib_added_def import_vars_init_def)
  with assms have "imported_libs vars = set (concat (map imported_names (ast_walk tree)))"
    by (simp add: import_loop_libs import_vars_init_def)
  also have "\<dots> = top_level_names tree"
    by (simp add: top_level_names_def set_ast_walk)
  finally show ?thesis .
qed

text \<open>
  A from-import without a module that runs while \<open>lib\<close> is unbound raises. When \<open>lib\<close> is
  bound, the statement only counts one more import: the name left in \<open>lib\<close> is empty or
  in the set already.
\<close>

lemma import_from_unbound:
  "lib vars = None \<Longrightarrow> import_from None vars = Inl UnboundLocalError"
  by (simp add: import_from_def)

lemma import_from_bound:
  "lib vars = Some l \<Longrightarrow> lib_added vars \<Longrightarrow>
   import_from None vars = Inr (vars\<lparr>num_imports := num_imports vars + 1\<rparr>)"
  by (auto simp: import_from_def lib_added_def insert_absorb)

text \<open>
  Without a module-less from-import the import loop never reads an unbound \<open>lib\<close>, and
  extraction returns a feature record for every source that is read and parsed.
\<close>

lemma import_loop_returns:
  "list_all names_module nodes \<Longrightarrow> \<exists>vars'. import_loop nodes vars = Inr vars'"
proof (induction nodes arbitrary: vars)
  case Nil
  show ?case by simp
next
  case (Cons node nodes)
  then have "names_module node" by simp
  then obtain vars1 where "import_node node vars = Inr vars1"
    by (cases node rule: names_module.cases) (auto simp: import_from_def Let_def)
  with Cons show ?case by simp
qed

lemma extract_returns:
  assumes "read_file file_path = Some source" and "ast_parse source = Some tree"
    and "list_all names_module (subtree tree)"
  shows "\<exists>features_dict. extract_features_and_code_from_file read_file ast_parse file_path =
      Inr ([], Some features_dict, Some source)"
proof -
  from assms(3) have "list_all names_module (ast_walk tree)"
    by (simp add: list_all_iff set_ast_walk)
  then obtain vars where "import_loop (ast_walk tree) import_vars_init = Inr vars"
    using import_loop_returns by blast
  with assms(1,2) show ?thesis
    by (simp add: extract_features_and_code_from_file_def calculate_features_def Let_def)
qed

subsection \<open>Evaluation of the sample programs\<close>

lemmas evaluate =
  calculate_features_def ast_walk_def py_str_def splitlines_def is_linebreak_def
  sum_isinstance_def import_vars_init_def FeatureExtractor_init_def enter_loop_def
  leave_loop_def count_call_def file_io_funcs_def import_name_def import_from_def
  split_first_def library_weights_get_def library_weights_def Let_def

lemma calculate_features_nested_loops:
  "calculate_features nested_loops_source nested_loops_tree =
     Inr [(''LOC'', 3), (''No_of_Functions'', 0), (''No_of_Classes'', 0), (''No_of_Loops'', 2),
          (''Loop_Nesting_Depth'', 2), (''No_of_Conditional_Blocks'', 0), (''Import_Score'', 0),
          (''I/O Calls'', 1)]"
  by (simp add: calculate_features_def nested_loops_source_def nested_loops_tree_def
      ast_walk_def py_str_def splitlines_def is_linebreak_def sum_isinstance_def
      import_vars_init_def FeatureExtractor_init_def enter_loop_def leave_loop_def
      count_call_def file_io_funcs_def Let_def)

lemma extract_nested_loops:
  "extract_features_and_code_from_file
       (\<lambda>_. Some nested_loops_source) (\<lambda>_. Some nested_loops_tree) ''loops.py'' =
     Inr ([],
          Some [(''LOC'', 3), (''No_of_Functions'', 0), (''No_of_Classes'', 0),
                (''No_of_Loops'', 2), (''Loop_Nesting_Depth'', 2),
                (''No_of_Conditional_Blocks'', 0), (''Import_Score'', 0), (''I/O Calls'', 1)],
          Some nested_loops_source)"
  by (simp add: extract_features_and_code_from_file_def calculate_features_nested_loops)

lemma extract_sklearn:
  "extract_features_and_code_from_file
       (\<lambda>_. Some sklearn_source) (\<lambda>_. Some sklearn_tree) ''models.py'' =
     Inr ([],
          Some [(''LOC'', 2), (''No_of_Functions'', 0), (''No_of_Classes'', 0),
                (''No_of_Loops'', 0), (''Loop_Nesting_Depth'', 0),
                (''No_of_Conditional_Blocks'', 0), (''Import_Score'', 7), (''I/O Calls'', 0)],
          Some sklearn_source)"
  by (simp add: extract_features_and_code_from_file_def sklearn_source_def sklearn_tree_def
      evaluate)


lemma extract_two_imports:
  "extract_features_and_code_from_file
       (\<lambda>_. Some two_imports_source) (\<lambda>_. Some two_imports_tree) ''tools.py'' =
     Inr ([],
          Some [(''LOC'', 2), (''No_of_Functions'', 0), (''No_of_Classes'', 0),
                (''No_of_Loops'', 0), (''Loop_Nesting_Depth'', 0),
                (''No_of_Conditional_Blocks'', 0), (''Import_Score'', 2), (''I/O Calls'', 0)],
          Some two_imports_source)"
  by (simp add: extract_features_and_code_from_file_def two_imports_source_def
      two_imports_tree_def evaluate)

lemma extract_google:
  "extract_features_and_code_from_file
       (\<lambda>_. Some google_source) (\<lambda>_. Some google_tree) ''store.py'' =
     Inr ([],
          Some [(''LOC'', 1), (''No_of_Functions'', 0), (''No_of_Classes'', 0),
                (''No_of_Loops'', 0), (''Loop_Nesting_Depth'', 0),
                (''No_of_Conditional_Blocks'', 0), (''Import_Score'', 2), (''I/O Calls'', 0)],
          Some google_source)"
  by (simp add: extract_features_and_code_from_file_def google_source_def google_tree_def
      evaluate)

lemma extract_from_google:
  "extract_features_and_code_from_file
       (\<lambda>_. Some from_google_source) (\<lambda>_. Some from_google_tree) ''bucket.py'' =
     Inr ([],
          Some [(''LOC'', 1), (''No_of_Functions'', 0), (''No_of_Classes'', 0),
                (''No_of_Loops'', 0), (''Loop_Nesting_Depth'', 0),
                (''No_of_Conditional_Blocks'', 0), (''Import_Score'', 2), (''I/O Calls'', 0)],
          Some from_google_source)"
  by (simp add: extract_features_and_code_from_file_def from_google_source_def
      from_google_tree_def evaluate)

lemma calculate_features_google:
  "calculate_features source google_tree =
     Inr [(''LOC'', int (length (splitlines source))), (''No_of_Functions'', 0),
          (''No_of_Classes'', 0), (''No_of_Loops'', 0), (''Loop_Nesting_Depth'', 0),
          (''No_of_Conditional_Blocks'', 0), (''Import_Score'', 2), (''I/O Calls'', 0)]"
  by (simp add: google_tree_def evaluate del: splitlines_from.simps)

lemma predict_numeric_record:
  "predict_for_features numeric_or_nan constant_model numeric_record =
     \<lparr>returned = Some 42, st_errors = [],
      model_calls = [[[Some 3, Some 0, Some 0, Some 2, Some 2, Some 0, Some 0, Some 1]]]\<rparr>"
  by (simp add: predict_for_features_def numeric_record_def DataFrame_def FEATURES_ORDER_def
      isnull_any_def constant_model_def Let_def)

subsection \<open>The end-to-end example\<close>

text \<open>
  Claim C5. For the source text
  \<^verbatim>\<open>"for i in range(3):\n    for j in range(3):\n        open('f')\n"\<close>, read from a file
  and parsed to its tree, extraction returns the features LOC = 3, No\_of\_Functions = 0,
  No\_of\_Classes = 0, No\_of\_Loops = 2, Loop\_Nesting\_Depth = 2,
  No\_of\_Conditional\_Blocks = 0, Import\_Score = 0 and I/O Calls = 1, with the source
  text and no error message.
\<close>

theorem end_to_end_nested_loops:
  assumes "read_file file_path = Some nested_loops_source"
    and "ast_parse nested_loops_source = Some nested_loops_tree"
  shows "extract_features_and_code_from_file read_file ast_parse file_path =
     Inr ([],
          Some [(''LOC'', 3), (''No_of_Functions'', 0), (''No_of_Classes'', 0),
                (''No_of_Loops'', 2), (''Loop_Nesting_Depth'', 2),
                (''No_of_Conditional_Blocks'', 0), (''Import_Score'', 0), (''I/O Calls'', 1)],
          Some nested_loops_source)"
  using assms
  by (simp add: extract_features_and_code_from_file_def calculate_features_nested_loops)

theorem end_to_end_nested_loops_witness:
  "extract_features_and_code_from_file
       (\<lambda>_. Some nested_loops_source) (\<lambda>_. Some nested_loops_tree) ''loops.py'' =
     Inr ([],
          Some [(''LOC'', 3), (''No_of_Functions'', 0), (''No_of_Classes'', 0),
                (''No_of_Loops'', 2), (''Loop_Nesting_Depth'', 2),
                (''No_of_Conditional_Blocks'', 0), (''Import_Score'', 0), (''I/O Calls'', 1)],
          Some nested_loops_source)"
  using end_to_end_nested_loops
          [of "\<lambda>_. Some nested_loops_source" "''loops.py''" "\<lambda>_. Some nested_loops_tree"]
  by simp

subsection \<open>Invariants of the feature record\<close>

lemma library_weights_positive: "(key, w) \<in> set library_weights \<Longrightarrow> 0 < w"
  by (auto simp: library_weights_def)

lemma library_weights_get_positive: "0 < library_weights_get key"
  by (auto simp: library_weights_get_def split: option.split
      dest!: map_of_SomeD library_weights_positive)

text \<open>
  Claim C4. When the source is read and parsed, every feature record the extraction
  returns has Loop\_Nesting\_Depth at most No\_of\_Loops and all eight fields at least 0;
  and for a tree without any \<^verbatim>\<open>For\<close> or \<^verbatim>\<open>While\<close> node both Loop\_Nesting\_Depth and
  No\_of\_Loops are 0.
\<close>

theorem feature_invariants:
  assumes "read_file file_path = Some source" and "ast_parse source = Some tree"
    and "extract_features_and_code_from_file read_file ast_parse file_path =
      Inr (reports, features, code)"
  shows "\<exists>loc functions classes loops depth conditionals score io_calls.
      features = Some [(''LOC'', loc), (''No_of_Functions'', functions),
          (''No_of_Classes'', classes), (''No_of_Loops'', loops),
          (''Loop_Nesting_Depth'', depth), (''No_of_Conditional_Blocks'', conditionals),
          (''Import_Score'', score), (''I/O Calls'', io_calls)] \<and>
      depth \<le> loops \<and>
      0 \<le> loc \<and> 0 \<le> functions \<and> 0 \<le> classes \<and> 0 \<le> loops \<and> 0 \<le> depth \<and>
      0 \<le> conditionals \<and> 0 \<le> score \<and> 0 \<le> io_calls \<and>
      (list_all (\<lambda>node. \<not> is_For_or_While node) (subtree tree) \<longrightarrow> depth = 0 \<and> loops = 0)"
proof -
  from assms obtain features_dict where
    calc: "calculate_features source tree = Inr features_dict"
    and some: "features = Some features_dict"
    by (rule extract_parsed)
  from calc obtain vars where
    "import_loop (ast_walk tree) import_vars_init = Inr vars" and
    dict: "features_dict =
        [(''LOC'', int (length (splitlines source))),
         (''No_of_Functions'', sum_isinstance is_FunctionDef (ast_walk tree)),
         (''No_of_Classes'', sum_isinstance is_ClassDef (ast_walk tree)),
         (''No_of_Loops'', sum_isinstance is_For_or_While (ast_walk tree)),
         (''Loop_Nesting_Depth'', max_loop_depth (visit tree FeatureExtractor_init)),
         (''No_of_Conditional_Blocks'', sum_isinstance is_If (ast_walk tree)),
         (''Import_Score'', sum library_weights_get (imported_libs vars)),
         (''I/O Calls'', file_io_calls (visit tree FeatureExtractor_init))]"
    by (rule calculate_features_Inr)
  have score: "0 \<le> sum library_weights_get (imported_libs vars)"
    by (rule sum_nonneg) (simp add: less_imp_le library_weights_get_positive)
  have io: "0 \<le> file_io_calls (visit tree FeatureExtractor_init)"
    by (simp add: max_loop_depth_bounds sum_isinstance_nonneg)
  have depth: "max_loop_depth (visit tree FeatureExtractor_init)
      \<le> sum_isinstance is_For_or_While (ast_walk tree)"
    by (simp add: sum_isinstance_walk max_loop_depth_bounds)
  have none: "list_all (\<lambda>node. \<not> is_For_or_While node) (subtree tree) \<longrightarrow>
      max_loop_depth (visit tree FeatureExtractor_init) = 0 \<and>
      sum_isinstance is_For_or_While (ast_walk tree) = 0"
    using depth max_loop_depth_bounds(1) [of tree]
    by (auto simp: sum_isinstance_walk dest: sum_isinstance_none)
  show ?thesis
    using some dict score io depth none max_loop_depth_bounds(1) [of tree]
    by (simp add: sum_isinstance_nonneg)
qed

theorem feature_invariants_witness:
  "extract_features_and_code_from_file
       (\<lambda>_. Some sklearn_source) (\<lambda>_. Some sklearn_tree) ''models.py'' =
     Inr ([],
          Some [(''LOC'', 2), (''No_of_Functions'', 0), (''No_of_Classes'', 0),
                (''No_of_Loops'', 0), (''Loop_Nesting_Depth'', 0),
                (''No_of_Conditional_Blocks'', 0), (''Import_Score'', 7), (''I/O Calls'', 0)],
          Some sklearn_source) \<and>
   list_all (\<lambda>node. \<not> is_For_or_While node) (subtree sklearn_tree) \<and>
   (\<exists>loc functions classes loops depth conditionals score io_calls.
      Some [(''LOC'', 2::int), (''No_of_Functions'', 0), (''No_of_Classes'', 0),
            (''No_of_Loops'', 0), (''Loop_Nesting_Depth'', 0),
            (''No_of_Conditional_Blocks'', 0), (''Import_Score'', 7), (''I/O Calls'', 0)] =
        Some [(''LOC'', loc), (''No_of_Functions'', functions),
          (''No_of_Classes'', classes), (''No_of_Loops'', loops),
          (''Loop_Nesting_Depth'', depth), (''No_of_Conditional_Blocks'', conditionals),
          (''Import_Score'', score), (''I/O Calls'', io_calls)] \<and>
      depth \<le> loops \<and>
      0 \<le> loc \<and> 0 \<le> functions \<and> 0 \<le> classes \<and> 0 \<le> loops \<and> 0 \<le> depth \<and>
      0 \<le> conditionals \<and> 0 \<le> score \<and> 0 \<le> io_calls \<and>
      (list_all (\<lambda>node. \<not> is_For_or_While node) (subtree sklearn_tree) \<longrightarrow>
        depth = 0 \<and> loops = 0))"
proof (intro conjI)
  show "list_all (\<lambda>node. \<not> is_For_or_While node) (subtree sklearn_tree)"
    by (simp add: sklearn_tree_def)
  show "\<exists>loc functions classes loops depth conditionals score io_calls.
      Some [(''LOC'', 2::int), (''No_of_Functions'', 0), (''No_of_Classes'', 0),
            (''No_of_Loops'', 0), (''Loop_Nesting_Depth'', 0),
            (''No_of_Conditional_Blocks'', 0), (''Import_Score'', 7), (''I/O Calls'', 0)] =
        Some [(''LOC'', loc), (''No_of_Functions'', functions),
          (''No_of_Classes'', classes), (''No_of_Loops'', loops),
          (''Loop_Nesting_Depth'', depth), (''No_of_Conditional_Blocks'', conditionals),
          (''Import_Score'', score), (''I/O Calls'', io_calls)] \<and>
      depth \<le> loops \<and>
      0 \<le> loc \<and> 0 \<le> functions \<and> 0 \<le> classes \<and> 0 \<le> loops \<and> 0 \<le> depth \<and>
      0 \<le> conditionals \<and> 0 \<le> score \<and> 0 \<le> io_calls \<and>
      (list_all (\<lambda>node. \<not> is_For_or_While node) (subtree sklearn_tree) \<longrightarrow>
        depth = 0 \<and> loops = 0)"
    by (rule feature_invariants
        [where read_file = "\<lambda>_. Some sklearn_source" and file_path = "''models.py''"
          and ast_parse = "\<lambda>_. Some sklearn_tree" and source = sklearn_source
          and reports = "[]" and code = "Some sklearn_source"])
      (simp_all add: extract_sklearn)
qed (rule extract_sklearn)

subsection \<open>File I/O calls\<close>

text \<open>
  Claim C6. I/O Calls is the number of call expressions of the tree whose callee's simple
  name (the identifier of a bare name, the member name of an attribute access, whatever
  the receiver) is one of open, read, write, remove, rename, copy, seek, tell, flush.
  So visiting \<^verbatim>\<open>obj.read()\<close> and visiting \<^verbatim>\<open>read()\<close> each add one to the count, and visiting
  \<^verbatim>\<open>reader.readline()\<close> adds nothing.
\<close>

theorem io_calls_counted:
  assumes "read_file file_path = Some source" and "ast_parse source = Some tree"
    and "extract_features_and_code_from_file read_file ast_parse file_path =
      Inr (reports, features, code)"
  shows "(\<exists>features_dict. features = Some features_dict \<and>
        map_of features_dict ''I/O Calls'' = Some (sum_isinstance is_io_call (subtree tree))) \<and>
    (\<forall>self. file_io_calls (visit (Call (Attribute (Name ''obj'') ''read'') []) self) =
        file_io_calls self + 1) \<and>
    (\<forall>self. file_io_calls (visit (Call (Name ''read'') []) self) = file_io_calls self + 1) \<and>
    (\<forall>self. file_io_calls (visit (Call (Attribute (Name ''reader'') ''readline'') []) self) =
        file_io_calls self)"
proof -
  from assms obtain features_dict where
    calc: "calculate_features source tree = Inr features_dict"
    and some: "features = Some features_dict"
    by (rule extract_parsed)
  from calc have "map_of features_dict ''I/O Calls'' =
      Some (file_io_calls (visit tree FeatureExtractor_init))"
    by (rule calculate_features_Inr) simp
  then have "map_of features_dict ''I/O Calls'' = Some (sum_isinstance is_io_call (subtree tree))"
    by (simp add: max_loop_depth_bounds)
  with some show ?thesis
    by (simp add: count_call_def file_io_funcs_def)
qed

theorem io_calls_counted_witness:
  "extract_features_and_code_from_file
       (\<lambda>_. Some nested_loops_source) (\<lambda>_. Some nested_loops_tree) ''loops.py'' =
     Inr ([],
          Some [(''LOC'', 3), (''No_of_Functions'', 0), (''No_of_Classes'', 0),
                (''No_of_Loops'', 2), (''Loop_Nesting_Depth'', 2),
                (''No_of_Conditional_Blocks'', 0), (''Import_Score'', 0), (''I/O Calls'', 1)],
          Some nested_loops_source) \<and>
   sum_isinstance is_io_call (subtree nested_loops_tree) = 1"
proof -
  have "(\<exists>features_dict.
        Some [(''LOC'', 3), (''No_of_Functions'', 0), (''No_of_Classes'', 0),
              (''No_of_Loops'', 2), (''Loop_Nesting_Depth'', 2),
              (''No_of_Conditional_Blocks'', 0), (''Import_Score'', 0), (''I/O Calls'', 1)] =
          Some features_dict \<and>
        map_of features_dict ''I/O Calls'' =
          Some (sum_isinstance is_io_call (subtree nested_loops_tree))) \<and>
    (\<forall>self. file_io_calls (visit (Call (Attribute (Name ''obj'') ''read'') []) self) =
        file_io_calls self + 1) \<and>
    (\<forall>self. file_io_calls (visit (Call (Name ''read'') []) self) = file_io_calls self + 1) \<and>
    (\<forall>self. file_io_calls (visit (Call (Attribute (Name ''reader'') ''readline'') []) self) =
        file_io_calls self)"
    by (rule io_calls_counted
        [where read_file = "\<lambda>_. Some nested_loops_source" and file_path = "''loops.py''"
          and ast_parse = "\<lambda>_. Some nested_loops_tree" and source = nested_loops_source
          and reports = "[]" and code = "Some nested_loops_source"])
      (simp_all add: extract_nested_loops)
  then have "sum_isinstance is_io_call (subtree nested_loops_tree) = 1"
    by auto
  with extract_nested_loops show ?thesis
    by simp
qed

subsection \<open>The import score\<close>



subsection \<open>Table keys that no import reaches\<close>

lemma imported_names_segments:
  "set (imported_names node) \<subseteq> split_first ` set (import_module_names node)"
proof (cases node)
  case (ImportFrom module names)
  then show ?thesis by (cases module) auto
qed auto

lemma top_level_names_segments:
  "top_level_names tree \<subseteq> split_first ` set (module_names tree)"
  unfolding top_level_names_def module_names_def
  using imported_names_segments by fastforce

lemma split_first_no_dot: "CHR ''.'' \<notin> set (split_first name)"
  unfolding split_first_def by (induction name) auto

lemma split_first_subset: "set (split_first name) \<subseteq> set name"
  unfolding split_first_def by (auto dest: set_takeWhileD)

lemma google_weight: "library_weights_get ''google'' = 2"
  by (simp add: library_weights_get_def library_weights_def)

lemma imports_top_level_name:
  "imports_top_level key node \<Longrightarrow> key \<noteq> [] \<Longrightarrow> key \<in> set (imported_names node)"
  by (induction key node rule: imports_top_level.induct) (auto simp: list_ex_iff)

lemma imports_top_level_names:
  assumes "list_ex (imports_top_level key) (subtree tree)" and "key \<noteq> []"
  shows "key \<in> top_level_names tree"
proof -
  from assms(1) obtain node where "node \<in> set (subtree tree)" and "imports_top_level key node"
    by (auto simp: list_ex_iff)
  with assms(2) show ?thesis
    unfolding top_level_names_def using imports_top_level_name by fastforce
qed

lemma finite_top_level_names: "finite (top_level_names tree)"
  by (simp add: top_level_names_def)

text \<open>
  Claim C10. Take a file for which extraction returns a record. Every key the import
  loop looks up in the weight table is the first dotted segment of a path that an import
  statement of the tree names: it contains no dot, so it is never \<^verbatim>\<open>google.cloud\<close>, and
  since the paths of import statements contain no hyphen, it is never \<^verbatim>\<open>scikit-learn\<close> or
  \<^verbatim>\<open>scikit-image\<close>. When the tree has an import statement, plain or from-import, whose
  top-level segment is \<^verbatim>\<open>google\<close>, the key \<^verbatim>\<open>google\<close> is looked up, its lookup gives the
  default 2 and not 6, and Import\_Score is 2 plus the weights of the other keys.
\<close>

theorem dotted_keys_never_matched:
  assumes "read_file file_path = Some source" and "ast_parse source = Some tree"
    and "extract_features_and_code_from_file read_file ast_parse file_path =
      Inr (reports, features, code)"
  shows "\<exists>features_dict vars. features = Some features_dict \<and>
      import_loop (ast_walk tree) import_vars_init = Inr vars \<and>
      map_of features_dict ''Import_Score'' = Some (sum library_weights_get (imported_libs vars)) \<and>
      (\<forall>key \<in> imported_libs vars.
          key \<in> split_first ` set (module_names tree) \<and> CHR ''.'' \<notin> set key \<and>
          key \<noteq> ''google.cloud'') \<and>
      (list_all (\<lambda>name. CHR ''-'' \<notin> set name) (module_names tree) \<longrightarrow>
          ''scikit-learn'' \<notin> imported_libs vars \<and> ''scikit-image'' \<notin> imported_libs vars) \<and>
      (list_ex (imports_top_level ''google'') (subtree tree) \<longrightarrow>
          ''google'' \<in> imported_libs vars \<and> library_weights_get ''google'' = 2 \<and>
          map_of features_dict ''Import_Score'' =
            Some (2 + sum library_weights_get (imported_libs vars - {''google''})))"
proof -
  from assms obtain features_dict where
    calc: "calculate_features source tree = Inr features_dict"
    and some: "features = Some features_dict"
    by (rule extract_parsed)
  from calc obtain vars where
    loop: "import_loop (ast_walk tree) import_vars_init = Inr vars"
    and score: "map_of features_dict ''Import_Score'' =
      Some (sum library_weights_get (imported_libs vars))"
    by (rule calculate_features_Inr) simp
  have libs: "imported_libs vars = top_level_names tree"
    using loop by (rule imported_libs_walk)
  have keys: "key \<in> split_first ` set (module_names tree) \<and> CHR ''.'' \<notin> set key \<and>
      key \<noteq> ''google.cloud''" if "key \<in> imported_libs vars" for key
  proof -
    from that have segment: "key \<in> split_first ` set (module_names tree)"
      using libs top_level_names_segments by blast
    then have "CHR ''.'' \<notin> set key"
      using split_first_no_dot by auto
    with segment show ?thesis
      by auto
  qed
  have hyphen: "''scikit-learn'' \<notin> imported_libs vars \<and> ''scikit-image'' \<notin> imported_libs vars"
    if plain: "list_all (\<lambda>name. CHR ''-'' \<notin> set name) (module_names tree)"
  proof -
    have "CHR ''-'' \<notin> set key" if "key \<in> imported_libs vars" for key
    proof -
      from that keys obtain name where "name \<in> set (module_names tree)"
        and "key = split_first name"
        by blast
      with plain split_first_subset [of name] show ?thesis
        by (auto simp: list_all_iff)
    qed
    then show ?thesis
      by fastforce
  qed
  have google: "''google'' \<in> imported_libs vars \<and> library_weights_get ''google'' = 2 \<and>
      map_of features_dict ''Import_Score'' =
        Some (2 + sum library_weights_get (imported_libs vars - {''google''}))"
    if "list_ex (imports_top_level ''google'') (subtree tree)"
  proof -
    from that have member: "''google'' \<in> imported_libs vars"
      unfolding libs by (rule imports_top_level_names) simp
    have "finite (imported_libs vars)"
      unfolding libs by (rule finite_top_level_names)
    then have "sum library_weights_get (imported_libs vars) =
        library_weights_get ''google'' +
        sum library_weights_get (imported_libs vars - {''google''})"
      using member by (rule sum.remove)
    with member score google_weight show ?thesis
      by simp
  qed
  from some loop score keys hyphen google show ?thesis
    by blast
qed

theorem dotted_keys_never_matched_witness:
  "extract_features_and_code_from_file
       (\<lambda>_. Some google_source) (\<lambda>_. Some google_tree) ''store.py'' =
     Inr ([],
          Some [(''LOC'', 1), (''No_of_Functions'', 0), (''No_of_Classes'', 0),
                (''No_of_Loops'', 0), (''Loop_Nesting_Depth'', 0),
                (''No_of_Conditional_Blocks'', 0), (''Import_Score'', 2), (''I/O Calls'', 0)],
          Some google_source) \<and>
   list_ex (imports_top_level ''google'') (subtree google_tree) \<and>
   list_all (\<lambda>name. CHR ''-'' \<notin> set name) (module_names google_tree) \<and>
   (\<exists>vars. import_loop (ast_walk google_tree) import_vars_init = Inr vars \<and>
      ''google'' \<in> imported_libs vars \<and> ''scikit-learn'' \<notin> imported_libs vars) \<and>
   extract_features_and_code_from_file
       (\<lambda>_. Some from_google_source) (\<lambda>_. Some from_google_tree) ''bucket.py'' =
     Inr ([],
          Some [(''LOC'', 1), (''No_of_Functions'', 0), (''No_of_Classes'', 0),
                (''No_of_Loops'', 0), (''Loop_Nesting_Depth'', 0),
                (''No_of_Conditional_Blocks'', 0), (''Import_Score'', 2), (''I/O Calls'', 0)],
          Some from_google_source) \<and>
   list_ex (imports_top_level ''google'') (subtree from_google_tree) \<and>
   (\<exists>vars. import_loop (ast_walk from_google_tree) import_vars_init = Inr vars \<and>
      ''google'' \<in> imported_libs vars \<and>
      sum library_weights_get (imported_libs vars - {''google''}) = 0)"
proof -
  have plain: "list_ex (imports_top_level ''google'') (subtree google_tree)"
    and no_hyphen: "list_all (\<lambda>name. CHR ''-'' \<notin> set name) (module_names google_tree)"
    by (simp_all add: google_tree_def module_names_def split_first_def)
  have from_import: "list_ex (imports_top_level ''google'') (subtree from_google_tree)"
    by (simp add: from_google_tree_def split_first_def)
  note first = dotted_keys_never_matched
    [where read_file = "\<lambda>_. Some google_source" and file_path = "''store.py''"
      and ast_parse = "\<lambda>_. Some google_tree", OF refl refl extract_google]
  note second = dotted_keys_never_matched
    [where read_file = "\<lambda>_. Some from_google_source" and file_path = "''bucket.py''"
      and ast_parse = "\<lambda>_. Some from_google_tree", OF refl refl extract_from_google]
  from first plain no_hyphen
  have 1: "\<exists>vars. import_loop (ast_walk google_tree) import_vars_init = Inr vars \<and>
      ''google'' \<in> imported_libs vars \<and> ''scikit-learn'' \<notin> imported_libs vars"
    by blast
  from second from_import
  have 2: "\<exists>vars. import_loop (ast_walk from_google_tree) import_vars_init = Inr vars \<and>
      ''google'' \<in> imported_libs vars \<and>
      sum library_weights_get (imported_libs vars - {''google''}) = 0"
    by auto
  from extract_google plain no_hyphen 1 extract_from_google from_import 2 show ?thesis
    by blast
qed

subsection \<open>From-imports without a module\<close>

text \<open>
  Claim C1 says that a from-import with an absent module is skipped, that extraction
  completes, and that a file whose only import is \<^verbatim>\<open>from . import x\<close> gets Import\_Score 0.
  On that file the code reads the local variable \<open>lib\<close> before any assignment to it:
  extraction ends with \<^verbatim>\<open>UnboundLocalError\<close> and returns nothing.
\<close>

theorem relative_import_raises:
  "extract_features_and_code_from_file
       (\<lambda>_. Some relative_import_source) (\<lambda>_. Some relative_import_tree) ''pkg/mod.py'' =
     Inl UnboundLocalError"
  by (simp add: extract_features_and_code_from_file_def relative_import_source_def
      relative_import_tree_def evaluate)

text \<open>
  Claim C3 says that for every source text that parses, both components of the returned
  pair are present. The source below is read and parsed; \<^verbatim>\<open>ast.walk\<close> yields the
  module-less from-import before the import nested in the function, so \<open>lib\<close> is still
  unbound, and the call ends with \<^verbatim>\<open>UnboundLocalError\<close> instead of returning a pair.
\<close>

theorem parsed_source_without_pair:
  "ast_walk late_import_tree =
     [late_import_tree, FunctionDef [Other [], Import [''json'']], ImportFrom None [''helpers''],
      Other [], Import [''json''], Other [], Other []] \<and>
   extract_features_and_code_from_file
       (\<lambda>_. Some late_import_source) (\<lambda>_. Some late_import_tree) ''pkg/load.py'' =
     Inl UnboundLocalError"
  by (simp add: extract_features_and_code_from_file_def late_import_source_def
      late_import_tree_def evaluate)

subsection \<open>Lines of code\<close>

lemma line_breaks_Nil [simp]: "line_breaks [] = 0"
  by (simp add: line_breaks_def)

lemma line_breaks_single [simp]:
  "line_breaks [c] = (if is_linebreak c then 1 else 0)"
  by (simp add: line_breaks_def)

lemma line_breaks_Cons [simp]:
  "line_breaks (c # d # ds) =
     (if c = 13 \<and> d = 10 then 0 else if is_linebreak c then 1 else 0) + line_breaks (d # ds)"
  by (simp add: line_breaks_def is_linebreak_def)

lemma is_linebreak_CR_LF [simp]: "is_linebreak 13" "is_linebreak 10"
  by (simp_all add: is_linebreak_def)

lemma line_breaks_step:
  "line_breaks (c # cs) =
     (if is_linebreak c \<and> \<not> (c = 13 \<and> take 1 cs = [10]) then 1 else 0) + line_breaks cs"
  by (cases cs) auto

lemma length_splitlines_from:
  "int (length (splitlines_from line s)) =
     line_breaks s +
     (if (if s = [] then line \<noteq> [] else \<not> is_linebreak (last s)) then 1 else 0)"
proof (induction line s rule: splitlines_from.induct)
  case (1 line)
  show ?case by simp
next
  case (2 line c cs)
  show ?case
  proof (cases "is_linebreak c")
    case False
    then have "c \<noteq> 13" by auto
    with False have "line_breaks (c # cs) = line_breaks cs"
      by (simp add: line_breaks_step)
    with False 2(3) show ?thesis
      by simp
  next
    case lb: True
    show ?thesis
    proof (cases cs)
      case Nil
      with lb show ?thesis by simp
    next
      case (Cons d ds)
      show ?thesis
      proof (cases "c = 13 \<and> d = 10")
        case True
        have "splitlines_from line (c # cs) = line # splitlines_from [] ds"
          using lb Cons True by simp
        moreover have "int (length (splitlines_from [] ds)) =
            line_breaks ds +
              (if (if ds = [] then False else \<not> is_linebreak (last ds)) then 1 else 0)"
          using 2(1) [OF lb Cons True] by simp
        moreover from True Cons have "line_breaks (c # cs) = 1 + line_breaks ds"
          by (simp add: line_breaks_step [of 10 ds])
        moreover from True Cons have "(\<not> is_linebreak (last (c # cs))) =
            (if ds = [] then False else \<not> is_linebreak (last ds))"
          by simp
        ultimately show ?thesis
          by (simp del: splitlines_from.simps line_breaks_Cons)
      next
        case False
        have "splitlines_from line (c # cs) = line # splitlines_from [] cs"
          using lb Cons False by auto
        moreover have "int (length (splitlines_from [] cs)) =
            line_breaks cs + (if \<not> is_linebreak (last cs) then 1 else 0)"
          using 2(2) [OF lb Cons False] Cons by (simp del: splitlines_from.simps)
        moreover from False lb Cons have "line_breaks (c # cs) = 1 + line_breaks cs"
          by (auto simp del: line_breaks_Cons simp add: line_breaks_step [of c])
        moreover from Cons have "last (c # cs) = last cs"
          by simp
        ultimately show ?thesis
          by (simp del: splitlines_from.simps line_breaks_Cons)
      qed
    qed
  qed
qed

lemma is_linebreak_cases:
  "is_linebreak c \<longleftrightarrow> is_line_terminator c \<or> is_other_break c"
  by (auto simp: is_linebreak_def is_line_terminator_def is_other_break_def)

lemma line_breaks_terminators:
  assumes "list_all (\<lambda>c. \<not> is_other_break c) s"
  shows "line_breaks s = line_terminators s"
proof -
  have "filter is_linebreak s = filter is_line_terminator s"
    using assms by (intro filter_cong) (auto simp: list_all_iff is_linebreak_cases)
  then show ?thesis
    by (simp add: line_breaks_def line_terminators_def)
qed

lemma loc_counts_line_breaks:
  assumes "source \<noteq> []" and "\<not> is_linebreak (last source)"
  shows "int (length (splitlines source)) = line_breaks source + 1"
  using assms by (simp add: splitlines_def length_splitlines_from)

text \<open>
  Claim C9, for texts without further line breaks. For a source text that is not empty,
  does not end with a line terminator and contains none of the further characters at
  which \<^verbatim>\<open>str.splitlines\<close> breaks a line, LOC is the number of line terminators of the
  text (line feed, carriage return, and carriage return with line feed as one) plus one.
\<close>

theorem loc_counts_line_terminators:
  assumes "read_file file_path = Some source" and "ast_parse source = Some tree"
    and "extract_features_and_code_from_file read_file ast_parse file_path =
      Inr (reports, features, code)"
    and "source \<noteq> []" and "\<not> is_line_terminator (last source)"
    and "list_all (\<lambda>c. \<not> is_other_break c) source"
  shows "\<exists>features_dict. features = Some features_dict \<and>
      map_of features_dict ''LOC'' = Some (line_terminators source + 1)"
proof -
  from assms(1-3) obtain features_dict where
    calc: "calculate_features source tree = Inr features_dict"
    and some: "features = Some features_dict"
    by (rule extract_parsed)
  from calc have loc: "map_of features_dict ''LOC'' = Some (int (length (splitlines source)))"
    by (rule calculate_features_Inr) simp
  from assms(4,6) have "\<not> is_other_break (last source)"
    by (simp add: list_all_iff)
  with assms(5) have "\<not> is_linebreak (last source)"
    by (simp add: is_linebreak_cases)
  with assms(4) have "int (length (splitlines source)) = line_breaks source + 1"
    by (rule loc_counts_line_breaks)
  moreover have "line_breaks source = line_terminators source"
    using assms(6) by (rule line_breaks_terminators)
  ultimately show ?thesis
    using some loc by simp
qed

theorem loc_counts_line_terminators_witness:
  "extract_features_and_code_from_file
       (\<lambda>_. Some two_imports_source) (\<lambda>_. Some two_imports_tree) ''tools.py'' =
     Inr ([],
          Some [(''LOC'', 2), (''No_of_Functions'', 0), (''No_of_Classes'', 0),
                (''No_of_Loops'', 0), (''Loop_Nesting_Depth'', 0),
                (''No_of_Conditional_Blocks'', 0), (''Import_Score'', 2), (''I/O Calls'', 0)],
          Some two_imports_source) \<and>
   two_imports_source \<noteq> [] \<and> \<not> is_line_terminator (last two_imports_source) \<and>
   list_all (\<lambda>c. \<not> is_other_break c) two_imports_source \<and>
   line_terminators two_imports_source + 1 = 2"
proof -
  have nonempty: "two_imports_source \<noteq> []"
    and last: "\<not> is_line_terminator (last two_imports_source)"
    and plain: "list_all (\<lambda>c. \<not> is_other_break c) two_imports_source"
    by (simp_all add: two_imports_source_def py_str_def is_line_terminator_def
        is_other_break_def)
  have "\<exists>features_dict.
      Some [(''LOC'', 2), (''No_of_Functions'', 0), (''No_of_Classes'', 0),
            (''No_of_Loops'', 0), (''Loop_Nesting_Depth'', 0),
            (''No_of_Conditional_Blocks'', 0), (''Import_Score'', 2), (''I/O Calls'', 0)] =
        Some features_dict \<and>
      map_of features_dict ''LOC'' = Some (line_terminators two_imports_source + 1)"
    by (rule loc_counts_line_terminators
        [where read_file = "\<lambda>_. Some two_imports_source" and file_path = "''tools.py''"
          and ast_parse = "\<lambda>_. Some two_imports_tree" and tree = two_imports_tree
          and reports = "[]" and code = "Some two_imports_source"])
      (simp_all add: extract_two_imports nonempty last plain)
  then have "line_terminators two_imports_source + 1 = 2"
    by auto
  with extract_two_imports nonempty last plain show ?thesis
    by simp
qed

text \<open>
  Without the condition on the further line breaks the count is wrong: the text
  \<^verbatim>\<open>"a = 1\n\x0c\nb = 2"\<close> is not empty, does not end with a line terminator and has two
  line terminators, but \<^verbatim>\<open>splitlines\<close> also breaks at the form feed and LOC is 4.
\<close>

theorem loc_form_feed_counterexample:
  "extract_features_and_code_from_file
       (\<lambda>_. Some form_feed_source) (\<lambda>_. Some form_feed_tree) ''page.py'' =
     Inr ([],
          Some [(''LOC'', 4), (''No_of_Functions'', 0), (''No_of_Classes'', 0),
                (''No_of_Loops'', 0), (''Loop_Nesting_Depth'', 0),
                (''No_of_Conditional_Blocks'', 0), (''Import_Score'', 0), (''I/O Calls'', 0)],
          Some form_feed_source) \<and>
   form_feed_source \<noteq> [] \<and> \<not> is_line_terminator (last form_feed_source) \<and>
   line_terminators form_feed_source + 1 = 3 \<and>
   map_of [(''LOC'', 4::int), (''No_of_Functions'', 0), (''No_of_Classes'', 0),
           (''No_of_Loops'', 0), (''Loop_Nesting_Depth'', 0),
           (''No_of_Conditional_Blocks'', 0), (''Import_Score'', 0), (''I/O Calls'', 0)] ''LOC''
     \<noteq> Some (line_terminators form_feed_source + 1)"
  by (simp add: extract_features_and_code_from_file_def form_feed_source_def form_feed_tree_def
      line_terminators_def is_line_terminator_def evaluate)

subsection \<open>The prediction adapter\<close>

lemma isnull_any_row:
  "isnull_any [map f cols] = list_ex (\<lambda>c. f c = None) cols"
  by (induction cols) (simp_all add: isnull_any_def)

lemma isnull_any_rowI: "c \<in> set cols \<Longrightarrow> f c = None \<Longrightarrow> isnull_any [map f cols]"
  by (auto simp: isnull_any_row list_ex_iff)

lemma isnull_any_rowD: "\<not> isnull_any [map f cols] \<Longrightarrow> c \<in> set cols \<Longrightarrow> f c \<noteq> None"
  by (auto simp: isnull_any_row list_ex_iff)

lemma map_of_coerced:
  "map_of (map (\<lambda>(key, value). (key, to_numeric value)) features_dict) key =
     map_option to_numeric (map_of features_dict key)"
  by (induction features_dict) auto

lemma DataFrame_row:
  assumes "key \<in> set cols" and "map_of d key = Some cell"
  shows "DataFrame d cols = [map (\<lambda>c. case map_of d c of None \<Rightarrow> None | Some cell \<Rightarrow> cell) cols]"
proof -
  from assms(2) have "key \<in> fst ` set d"
    by (metis domI dom_map_of_conv_image_fst)
  with assms(1) have "list_ex (\<lambda>c. c \<in> fst ` set d) cols"
    by (auto simp: list_ex_iff)
  then show ?thesis
    by (simp add: DataFrame_def)
qed

text \<open>
  Claim C2. When a field of the feature record that the model reads has a value that
  cannot be coerced to a number, \<^verbatim>\<open>predict_for_features\<close> shows the non-numeric-values
  error, returns \<^verbatim>\<open>None\<close> and never calls \<^verbatim>\<open>model.predict\<close>. For a record with all eight
  fields, the model is called only when every one of the eight coerced values is a number.
\<close>

theorem non_numeric_feature_rejected:
  "(key \<in> set FEATURES_ORDER \<and> map_of features_dict key = Some value \<and>
      to_numeric value = None \<longrightarrow>
    predict_for_features to_numeric model_predict features_dict =
      \<lparr>returned = None, st_errors = [Non_numeric_values_found], model_calls = []\<rparr>) \<and>
   (set FEATURES_ORDER \<subseteq> fst ` set features_dict \<and>
      model_calls (predict_for_features to_numeric model_predict features_dict) \<noteq> [] \<longrightarrow>
    list_all (\<lambda>key. \<exists>value number. map_of features_dict key = Some value \<and>
        to_numeric value = Some number) FEATURES_ORDER)"
proof (intro conjI impI)
  assume a: "key \<in> set FEATURES_ORDER \<and> map_of features_dict key = Some value \<and>
      to_numeric value = None"
  let ?d = "map (\<lambda>(key, value). (key, to_numeric value)) features_dict"
  from a have cell: "map_of ?d key = Some None"
    by (simp add: map_of_coerced)
  with a have frame: "DataFrame ?d FEATURES_ORDER =
      [map (\<lambda>c. case map_of ?d c of None \<Rightarrow> None | Some cell \<Rightarrow> cell) FEATURES_ORDER]"
    by (intro DataFrame_row) auto
  have "(case map_of ?d key of None \<Rightarrow> None | Some cell \<Rightarrow> cell) = None"
    using cell by simp
  with a have "isnull_any (DataFrame ?d FEATURES_ORDER)"
    unfolding frame by (intro isnull_any_rowI [of key]) simp_all
  then show "predict_for_features to_numeric model_predict features_dict =
      \<lparr>returned = None, st_errors = [Non_numeric_values_found], model_calls = []\<rparr>"
    by (simp add: predict_for_features_def Let_def)
next
  assume b: "set FEATURES_ORDER \<subseteq> fst ` set features_dict \<and>
      model_calls (predict_for_features to_numeric model_predict features_dict) \<noteq> []"
  let ?d = "map (\<lambda>(key, value). (key, to_numeric value)) features_dict"
  from b have notnull: "\<not> isnull_any (DataFrame ?d FEATURES_ORDER)"
    by (auto simp: predict_for_features_def Let_def split: if_splits)
  show "list_all (\<lambda>key. \<exists>value number. map_of features_dict key = Some value \<and>
        to_numeric value = Some number) FEATURES_ORDER"
    unfolding list_all_iff
  proof
    fix key assume key: "key \<in> set FEATURES_ORDER"
    with b have "key \<in> fst ` set features_dict" by auto
    then obtain v where v: "map_of features_dict key = Some v"
      by (metis domD dom_map_of_conv_image_fst)
    then have cell: "map_of ?d key = Some (to_numeric v)"
      by (simp add: map_of_coerced)
    with key have frame: "DataFrame ?d FEATURES_ORDER =
        [map (\<lambda>c. case map_of ?d c of None \<Rightarrow> None | Some cell \<Rightarrow> cell) FEATURES_ORDER]"
      by (intro DataFrame_row) auto
    from notnull key have
      "(case map_of ?d key of None \<Rightarrow> None | Some cell \<Rightarrow> cell) \<noteq> None"
      unfolding frame by (rule isnull_any_rowD)
    with cell have "to_numeric v \<noteq> None"
      by simp
    with v show "\<exists>value number. map_of features_dict key = Some value \<and>
        to_numeric value = Some number"
      by auto
  qed
qed

theorem non_numeric_feature_rejected_witness:
  "''No_of_Loops'' \<in> set FEATURES_ORDER \<and>
   map_of text_record ''No_of_Loops'' = Some (PyStr ''two'') \<and>
   numeric_or_nan (PyStr ''two'') = None \<and>
   predict_for_features numeric_or_nan constant_model text_record =
     \<lparr>returned = None, st_errors = [Non_numeric_values_found], model_calls = []\<rparr> \<and>
   set FEATURES_ORDER \<subseteq> fst ` set numeric_record \<and>
   model_calls (predict_for_features numeric_or_nan constant_model numeric_record) \<noteq> [] \<and>
   list_all (\<lambda>key. \<exists>value number. map_of numeric_record key = Some value \<and>
       numeric_or_nan value = Some number) FEATURES_ORDER"
proof -
  have key: "''No_of_Loops'' \<in> set FEATURES_ORDER"
    and field: "map_of text_record ''No_of_Loops'' = Some (PyStr ''two'')"
    and nan: "numeric_or_nan (PyStr ''two'') = None"
    by (simp_all add: FEATURES_ORDER_def text_record_def)
  have keys: "set FEATURES_ORDER \<subseteq> fst ` set numeric_record"
    and called: "model_calls (predict_for_features numeric_or_nan constant_model numeric_record)
      \<noteq> []"
    by (simp_all add: predict_numeric_record) (simp add: FEATURES_ORDER_def numeric_record_def)
  from key field nan
    non_numeric_feature_rejected
      [of "''No_of_Loops''" text_record "PyStr ''two''" numeric_or_nan constant_model]
  have rejected: "predict_for_features numeric_or_nan constant_model text_record =
      \<lparr>returned = None, st_errors = [Non_numeric_values_found], model_calls = []\<rparr>"
    by blast
  from keys called
    non_numeric_feature_rejected
      [of "''LOC''" numeric_record "PyInt 3" numeric_or_nan constant_model]
  have "list_all (\<lambda>key. \<exists>value number. map_of numeric_record key = Some value \<and>
       numeric_or_nan value = Some number) FEATURES_ORDER"
    by blast
  with key field nan rejected keys called show ?thesis
    by blast
qed

lemma accepted_frame:
  assumes "map_of features_dict ''LOC'' = Some loc" and "to_numeric loc = Some n_loc"
    and "map_of features_dict ''No_of_Functions'' = Some funcs"
    and "to_numeric funcs = Some n_funcs"
    and "map_of features_dict ''No_of_Classes'' = Some clss"
    and "to_numeric clss = Some n_clss"
    and "map_of features_dict ''No_of_Loops'' = Some loops" and "to_numeric loops = Some n_loops"
    and "map_of features_dict ''Loop_Nesting_Depth'' = Some depth"
    and "to_numeric depth = Some n_depth"
    and "map_of features_dict ''No_of_Conditional_Blocks'' = Some conds"
    and "to_numeric conds = Some n_conds"
    and "map_of features_dict ''Import_Score'' = Some score" and "to_numeric score = Some n_score"
    and "map_of features_dict ''I/O Calls'' = Some io_calls"
    and "to_numeric io_calls = Some n_io_calls"
  shows "DataFrame (map (\<lambda>(key, value). (key, to_numeric value)) features_dict) FEATURES_ORDER =
      [[Some n_loc, Some n_funcs, Some n_clss, Some n_loops, Some n_depth,
        Some n_conds, Some n_score, Some n_io_calls]]"
proof -
  let ?d = "map (\<lambda>(key, value). (key, to_numeric value)) features_dict"
  have "map_of ?d ''LOC'' = Some (Some n_loc)"
    using assms(1,2) by (simp add: map_of_coerced)
  then have "DataFrame ?d FEATURES_ORDER =
      [map (\<lambda>c. case map_of ?d c of None \<Rightarrow> None | Some cell \<Rightarrow> cell) FEATURES_ORDER]"
    by (intro DataFrame_row [of "''LOC''"]) (simp_all add: FEATURES_ORDER_def)
  also have "\<dots> = [[Some n_loc, Some n_funcs, Some n_clss, Some n_loops, Some n_depth,
        Some n_conds, Some n_score, Some n_io_calls]]"
    using assms by (simp add: FEATURES_ORDER_def map_of_coerced)
  finally show ?thesis .
qed

text \<open>
  Claim C8. For a feature record whose eight fields all coerce to numbers, the model is
  called once, with one row of exactly these eight numbers in the order LOC,
  No\_of\_Functions, No\_of\_Classes, No\_of\_Loops, Loop\_Nesting\_Depth,
  No\_of\_Conditional\_Blocks, Import\_Score, I/O Calls; and when the model returns a
  non-empty result, its first value is returned and no error is shown.
\<close>

theorem ordered_vector_passed:
  assumes "map_of features_dict ''LOC'' = Some loc" and "to_numeric loc = Some n_loc"
    and "map_of features_dict ''No_of_Functions'' = Some funcs"
    and "to_numeric funcs = Some n_funcs"
    and "map_of features_dict ''No_of_Classes'' = Some clss"
    and "to_numeric clss = Some n_clss"
    and "map_of features_dict ''No_of_Loops'' = Some loops" and "to_numeric loops = Some n_loops"
    and "map_of features_dict ''Loop_Nesting_Depth'' = Some depth"
    and "to_numeric depth = Some n_depth"
    and "map_of features_dict ''No_of_Conditional_Blocks'' = Some conds"
    and "to_numeric conds = Some n_conds"
    and "map_of features_dict ''Import_Score'' = Some score" and "to_numeric score = Some n_score"
    and "map_of features_dict ''I/O Calls'' = Some io_calls"
    and "to_numeric io_calls = Some n_io_calls"
  shows "model_calls (predict_for_features to_numeric model_predict features_dict) =
      [[[Some n_loc, Some n_funcs, Some n_clss, Some n_loops, Some n_depth,
         Some n_conds, Some n_score, Some n_io_calls]]] \<and>
    (\<forall>first others.
        model_predict [[Some n_loc, Some n_funcs, Some n_clss, Some n_loops, Some n_depth,
          Some n_conds, Some n_score, Some n_io_calls]] = Inr (first # others) \<longrightarrow>
        predict_for_features to_numeric model_predict features_dict =
          \<lparr>returned = Some first, st_errors = [],
           model_calls = [[[Some n_loc, Some n_funcs, Some n_clss, Some n_loops,
             Some n_depth, Some n_conds, Some n_score, Some n_io_calls]]]\<rparr>)"
proof -
  have frame: "DataFrame (map (\<lambda>(key, value). (key, to_numeric value)) features_dict)
      FEATURES_ORDER =
      [[Some n_loc, Some n_funcs, Some n_clss, Some n_loops, Some n_depth,
        Some n_conds, Some n_score, Some n_io_calls]]"
    using assms by (rule accepted_frame)
  show ?thesis
    by (simp add: predict_for_features_def frame isnull_any_def Let_def
        split: sum.split list.split)
qed

theorem ordered_vector_passed_witness:
  "predict_for_features numeric_or_nan constant_model numeric_record =
     \<lparr>returned = Some 42, st_errors = [],
      model_calls = [[[Some 3, Some 0, Some 0, Some 2, Some 2, Some 0, Some 0, Some 1]]]\<rparr>"
proof -
  have "model_calls (predict_for_features numeric_or_nan constant_model numeric_record) =
      [[[Some 3, Some 0, Some 0, Some 2, Some 2, Some 0, Some 0, Some 1]]] \<and>
    (\<forall>first others.
        constant_model [[Some 3, Some 0, Some 0, Some 2, Some 2, Some 0, Some 0, Some 1]] =
          Inr (first # others) \<longrightarrow>
        predict_for_features numeric_or_nan constant_model numeric_record =
          \<lparr>returned = Some first, st_errors = [],
           model_calls = [[[Some 3, Some 0, Some 0, Some 2, Some 2, Some 0, Some 0, Some 1]]]\<rparr>)"
    by (rule ordered_vector_passed
        [where loc = "PyInt 3" and funcs = "PyInt 0" and clss = "PyInt 0"
          and loops = "PyInt 2" and depth = "PyInt 2" and conds = "PyInt 0"
          and score = "PyInt 0" and io_calls = "PyInt 1"])
      (simp_all add: numeric_record_def)
  moreover have
    "constant_model [[Some 3, Some 0, Some 0, Some 2, Some 2, Some 0, Some 0, Some 1]] = Inr [42]"
    by (simp add: constant_model_def)
  ultimately show ?thesis
    by blast
qed

end
